theory Spec2Isabelle
  imports Complex_Main "HOL-Library.Log_Nat"
begin

unbundle bit_operations_syntax

section \<open>Numbers, errors and the data model of arcaea.js\<close>

text \<open>
  A JavaScript number is modelled by its exact value: \<open>int\<close> where the source keeps
  integers (times in milliseconds, which come from \<open>parseInt\<close> and \<open>Math.floor\<close>),
  \<open>rat\<close> elsewhere (tempo, scroll positions, coordinates). Rounding of IEEE doubles is
  modelled where it decides the result, in the judge timings of holds and arcs; elsewhere
  the arithmetic is exact. \<open>NaN\<close> and the infinities are not values of the model: where
  the source would compute one (a division by zero, \<open>parseInt\<close> of a field with no digits)
  the model function returns \<open>Inl OutsideModel\<close>. That value marks the border of the model;
  it is not an exception of the source.

  The exceptions of the source are values: \<open>AffFormatError\<close> and \<open>AffExportError\<close> are
  its own classes; \<open>TypeError\<close> is what the runtime throws on reading a property of
  \<open>undefined\<close> or \<open>null\<close>, \<open>RangeError\<close> what \<open>toPrecision\<close> throws on a
  precision outside 1 to 100.
\<close>

datatype error =
    AffFormatError string
  | AffExportError string
  | TypeError
  | RangeError
  | OutsideModel

record Vector2 =
  x :: rat
  y :: rat

record Vector3 =
  x :: rat
  y :: rat
  z :: rat

record TapNote =
  time :: int
  lane :: int

record HoldNote =
  time :: int
  endTime :: int
  lane :: int

record ArctapNote =
  time :: int

text \<open>
  An \<open>Arc\<close> keeps the fields the constructor takes, its arctaps, and the derived fields
  \<open>judgeTimings\<close> and \<open>renderHead\<close>; \<open>arcGroup\<close>, a reference to an array that
  several arcs share, is kept by the model of \<open>ArcManager\<close>. The back-reference
  \<open>timingGroup\<close> is the index of the owning group in \<open>Chart.timingGroups\<close>: the
  source compares it by identity only. The other events are modelled without it; the
  routines that read it take the group as an argument. The field \<open>end\<close> of the source
  is \<open>end'\<close> here.
\<close>

record Arc =
  time :: int
  endTime :: int
  start :: Vector2
  end' :: Vector2
  lineType :: string
  color :: int
  isVoid :: bool
  arcTaps :: "ArctapNote list"
  judgeTimings :: "int list"
  renderHead :: bool
  timingGroup :: nat

record TimingEvent =
  time :: int
  bpm :: rat
  beatsPerLine :: rat

record CameraEvent =
  time :: int
  translation :: Vector3
  rotation :: Vector3
  type :: string
  duration :: int

datatype ArcaeaEvent =
    ETap TapNote
  | EHold HoldNote
  | EArc Arc
  | ETiming TimingEvent
  | ECamera CameraEvent

record TimingGroup =
  isPrimary :: bool
  events :: "ArcaeaEvent list"

text \<open>
  The ambient singletons the conversion routines read: \<open>GameplayManager.instance.timing\<close>
  (the clock, floored to milliseconds), \<open>GameplayManager.instance.length\<close> (the song
  length, floored; \<open>songLength\<close> in \<open>getTimingByPos\<close>),
  \<open>GameplayManager.instance.audioManager.offset\<close> (the chart's \<open>AudioOffset\<close>) and
  \<open>TimingManager.instance.dropRate\<close>, which is 100 at construction, is kept between 1 and
  200 by the settings panel of debugger.js, and is otherwise only divided by 1.15.
\<close>

record Gameplay =
  timing :: int
  songLength :: int
  offset :: int
  dropRate :: rat

section \<open>TimingGroup: timing events and tempo lookup\<close>

fun timingOf :: "ArcaeaEvent \<Rightarrow> TimingEvent list" where
  "timingOf (ETiming t) = [t]"
| "timingOf _ = []"

text \<open>
  \<open>getTimingEvents\<close>: the events that are instances of \<open>TimingEvent\<close>, sorted by
  \<open>a.time - b.time\<close>. \<open>Array.prototype.sort\<close> is stable, as is \<open>sort_key\<close>.
\<close>

definition getTimingEvents :: "TimingGroup \<Rightarrow> TimingEvent list" where
  "getTimingEvents g = sort_key TimingEvent.time (concat (map timingOf (events g)))"

definition getBaseBpm :: "TimingGroup \<Rightarrow> error + rat" where
  "getBaseBpm g =
     (case getTimingEvents g of
        [] \<Rightarrow> Inl (AffFormatError
                ''Invalid Arcaea file format. The timing group has no timing event.'')
      | event # _ \<Rightarrow> Inr (bpm event))"

text \<open>
  \<open>getBpmByTiming\<close>: the loop returns at the first index \<open>i\<close> with
  \<open>timing > timings[i].time && timing < timings[i+1].time\<close>; after the loop the last
  event's tempo is returned, and reading it from an empty array throws.
\<close>

definition getBpmByTiming :: "TimingGroup \<Rightarrow> int \<Rightarrow> error + rat" where
  "getBpmByTiming g t =
     (let timings = getTimingEvents g in
      case find (\<lambda>i. t > TimingEvent.time (timings ! i) \<and> t < TimingEvent.time (timings ! (i + 1)))
                [0 ..< length timings - 1] of
        Some i \<Rightarrow> Inr (bpm (timings ! i))
      | None \<Rightarrow>
          if timings = [] then Inl TypeError
          else Inr (bpm (timings ! (length timings - 1))))"

text \<open>A group made of timing events only, given as (time, bpm) pairs with four beats per line.\<close>

definition timingGroupOf :: "(int \<times> rat) list \<Rightarrow> TimingGroup" where
  "timingGroupOf ps =
     \<lparr>isPrimary = True,
      events = map (\<lambda>(t, b). ETiming \<lparr>TimingEvent.time = t, bpm = b, beatsPerLine = 4\<rparr>) ps\<rparr>"

section \<open>TimingGroup: position from time\<close>

text \<open>
  \<open>getPosByTimingWithStart\<close> finds the breakpoint interval of \<open>current\<close> and of
  \<open>target\<close> with the same two steps: a loop that stops at the first \<open>i\<close> with
  \<open>c >= timings[i].time && c < timings[i+1].time\<close> (the index stays 0 when none
  matches), then the test \<open>c >= timings[length - 1].time\<close>, which overrides it.
  \<open>segmentOf\<close> is that pair of steps.
\<close>

definition segmentOf :: "TimingEvent list \<Rightarrow> int \<Rightarrow> nat" where
  "segmentOf timings c =
     (let i0 = (case find (\<lambda>i. c \<ge> TimingEvent.time (timings ! i) \<and>
                               c < TimingEvent.time (timings ! (i + 1)))
                          [0 ..< length timings - 1] of
                  Some i \<Rightarrow> i | None \<Rightarrow> 0)
      in if timings \<noteq> [] \<and> c \<ge> TimingEvent.time (timings ! (length timings - 1))
         then length timings - 1 else i0)"

text \<open>
  The summand the loop \<open>for(i = a; i <= b; i++)\<close> adds at index \<open>i\<close>. The source sets
  \<open>offset = 0\<close> after shifting \<open>current\<close> and \<open>target\<close>, so its \<open>offset\<close> terms
  are zero.
\<close>

definition posTerm ::
  "TimingEvent list \<Rightarrow> rat \<Rightarrow> rat \<Rightarrow> int \<Rightarrow> int \<Rightarrow> nat \<Rightarrow> nat \<Rightarrow> nat \<Rightarrow> rat" where
  "posTerm timings base dr current target a b i =
     (if i = a then
        of_int (TimingEvent.time (timings ! (i + 1)) - current) * bpm (timings ! i) / base * dr
      else if i \<noteq> b then
        of_int (TimingEvent.time (timings ! (i + 1)) - TimingEvent.time (timings ! i))
          * bpm (timings ! i) / base * dr
      else
        of_int (target - TimingEvent.time (timings ! i)) * bpm (timings ! i) / base * dr)"

text \<open>
  Every summand divides by the base tempo, so with a base tempo of 0 the source's result is
  \<open>NaN\<close> or infinite: \<open>OutsideModel\<close> here. With an empty list of timing events
  \<open>getBaseBpm\<close> throws.
\<close>

definition getPosByTimingWithStart :: "Gameplay \<Rightarrow> TimingGroup \<Rightarrow> int \<Rightarrow> int \<Rightarrow> error + rat" where
  "getPosByTimingWithStart gm g st t =
     (let current = (if st > t then t else st) - Gameplay.offset gm;
          target = (if st > t then st else t) - Gameplay.offset gm;
          reverse = st > t;
          timings = getTimingEvents g;
          a = segmentOf timings current;
          b = segmentOf timings target
      in case getBaseBpm g of
           Inl e \<Rightarrow> Inl e
         | Inr base \<Rightarrow>
             if base = 0 then Inl OutsideModel
             else
               let dr = dropRate gm;
                   pos = (if a = b then
                            of_int (target - current) * bpm (timings ! a) / base * dr
                          else
                            sum_list (map (posTerm timings base dr current target a b)
                                          [a ..< b + 1]))
               in Inr (if reverse then - pos else pos))"

definition getPosByTiming :: "Gameplay \<Rightarrow> TimingGroup \<Rightarrow> int \<Rightarrow> error + rat" where
  "getPosByTiming gm g t = getPosByTimingWithStart gm g (timing gm) t"

section \<open>TimingGroup: time from position\<close>

text \<open>\<open>bpm || 1\<close>: a tempo of 0 is falsy and is replaced by 1.\<close>

definition bpmOr1 :: "rat \<Rightarrow> rat" where
  "bpmOr1 b = (if b = 0 then 1 else b)"

text \<open>
  The position delta of interval \<open>i\<close> in the forward walk of \<open>getTimingByPos\<close>
  (\<open>startIdx\<close> is the source's \<open>start\<close>): from the
  clock to the next breakpoint for \<open>i == start\<close>, a whole interval in the interior, and
  from the last breakpoint to the end of the song for \<open>i == end\<close>.
\<close>

definition walkDelta :: "Gameplay \<Rightarrow> TimingEvent list \<Rightarrow> rat \<Rightarrow> nat \<Rightarrow> nat \<Rightarrow> rat" where
  "walkDelta gm timings base startIdx i =
     (if i = startIdx then
        of_int (TimingEvent.time (timings ! (i + 1)) + Gameplay.offset gm - timing gm)
          * (bpm (timings ! i) / base) * dropRate gm
      else if i \<noteq> length timings - 1 then
        of_int (TimingEvent.time (timings ! (i + 1)) - TimingEvent.time (timings ! i))
          * (bpm (timings ! i) / base) * dropRate gm
      else
        of_int (songLength gm - TimingEvent.time (timings ! i) - Gameplay.offset gm)
          * (bpm (timings ! i) / base) * dropRate gm)"

text \<open>
  The bracket test: with \<open>\<le>\<close> and \<open>\<ge>\<close> for \<open>i == start\<close>, with \<open><\<close> and \<open>>\<close>
  for every later interval.
\<close>

definition brackets :: "nat \<Rightarrow> nat \<Rightarrow> rat \<Rightarrow> rat \<Rightarrow> rat \<Rightarrow> bool" where
  "brackets startIdx i startPos delta endPos =
     (if i = startIdx then
        (startPos + delta \<le> endPos \<and> startPos \<ge> endPos) \<or>
        (startPos + delta \<ge> endPos \<and> startPos \<le> endPos)
      else
        (startPos + delta < endPos \<and> startPos > endPos) \<or>
        (startPos + delta > endPos \<and> startPos < endPos))"

text \<open>
  The loop \<open>for(i = start; i <= end; i++)\<close> over the remaining indices, with the running
  \<open>startPos\<close> and \<open>depthCount\<close>. It returns \<open>breakPos\<close> (\<open>None\<close> for -1) and the
  \<open>startPos\<close> at the break.
\<close>

fun walk ::
  "Gameplay \<Rightarrow> TimingEvent list \<Rightarrow> rat \<Rightarrow> nat \<Rightarrow> rat \<Rightarrow> int \<Rightarrow> nat list \<Rightarrow> rat \<Rightarrow> int
     \<Rightarrow> nat option \<times> rat" where
  "walk gm timings base startIdx endPos depth [] startPos depthCount = (None, startPos)"
| "walk gm timings base startIdx endPos depth (i # rest) startPos depthCount =
     (let delta = walkDelta gm timings base startIdx i in
      if brackets startIdx i startPos delta endPos then
        (if depth = depthCount then (Some i, startPos)
         else walk gm timings base startIdx endPos depth rest (startPos + delta) (depthCount + 1))
      else walk gm timings base startIdx endPos depth rest (startPos + delta) depthCount)"

text \<open>The last statement, with \<open>t\<close> for \<open>endTime\<close>: clamp above at the song length, else floor.\<close>

definition clampFloor :: "Gameplay \<Rightarrow> rat \<Rightarrow> int" where
  "clampFloor gm t = (if t > of_int (songLength gm) then songLength gm else \<lfloor>t\<rfloor>)"

text \<open>
  \<open>getTimingByPos\<close>. The first loop has no \<open>break\<close>, so \<open>start\<close> is the last matching
  index. With no timing event \<open>timings[end]\<close> is \<open>undefined\<close> and reading its
  \<open>time\<close> throws. The source divides by the base tempo and, on most paths, by
  \<open>(bpm || 1) / base * dropRate\<close>; a base tempo of 0 and a drop rate of 0 are left out of
  the model as a whole, as \<open>OutsideModel\<close>.
\<close>

definition getTimingByPos :: "Gameplay \<Rightarrow> TimingGroup \<Rightarrow> rat \<Rightarrow> int \<Rightarrow> error + int" where
  "getTimingByPos gm g pos depth =
     (let timings = getTimingEvents g in
      if timings = [] then Inl TypeError
      else
        let end = length timings - 1;
            now = timing gm;
            start0 = fold (\<lambda>i s. if now \<ge> TimingEvent.time (timings ! i) + Gameplay.offset gm \<and>
                                     now < TimingEvent.time (timings ! (i + 1)) + Gameplay.offset gm
                                  then i else s)
                          [0 ..< length timings - 1] 0;
            start = (if now \<ge> TimingEvent.time (timings ! end) + Gameplay.offset gm then end else start0)
        in case getBaseBpm g of
             Inl e \<Rightarrow> Inl e
           | Inr base \<Rightarrow>
               if base = 0 \<or> dropRate gm = 0 then Inl OutsideModel
               else if start = end then
                 Inr (clampFloor gm
                        (pos / ((bpmOr1 (bpm (timings ! end)) / base) * dropRate gm) + of_int now))
               else
                 (case walk gm timings base start pos depth [start ..< end + 1] 0 0 of
                    (None, startPos) \<Rightarrow> Inr (clampFloor gm (of_int (songLength gm)))
                  | (Some breakPos, startPos) \<Rightarrow>
                      let delta = pos - startPos;
                          rate = (bpmOr1 (bpm (timings ! breakPos)) / base) * dropRate gm
                      in if breakPos = start then
                           Inr (clampFloor gm
                                  (if delta = 0 then
                                     (if bpm (timings ! breakPos) = 0
                                      then of_int (TimingEvent.time (timings ! breakPos) + Gameplay.offset gm)
                                      else of_int now)
                                   else delta / rate + of_int now))
                         else
                           Inr (clampFloor gm
                                  (delta / rate
                                   + of_int (TimingEvent.time (timings ! breakPos) + Gameplay.offset gm)))))"

section \<open>Judge timings of holds and arcs\<close>

text \<open>
  The two routines of this section divide by the tempo, multiply the quotient back and floor
  the result, so which instants come out depends on how the numbers of the source round.
  Here a number is the exact value of the double that holds it, and a quotient, a product or
  a sum is the exact result rounded as IEEE 754 binary64 rounds it: to the nearest double, a
  tie going to the even mantissa. \<open>roundHalfEven\<close> rounds to the nearest integer, a tie
  going to the even one. For a positive \<open>a\<close>, \<open>binaryExponent a\<close> is the \<open>e\<close> with
  \<open>2^e \<le> a < 2^(e+1)\<close>, found from the bit lengths of the numerator and the denominator,
  and \<open>ulp a\<close> is the distance between neighbouring doubles at \<open>a\<close>: \<open>2^(e-52)\<close>, and
  \<open>2^(-1074)\<close> below \<open>2^(-1022)\<close>, where doubles are subnormal. \<open>fl q\<close> is the double
  nearest to \<open>q\<close>. Times are integers that a double holds exactly, and so are their
  differences.
\<close>

definition roundHalfEven :: "rat \<Rightarrow> int" where
  "roundHalfEven m =
     (let f = \<lfloor>m\<rfloor>; r = m - of_int f
      in if r < 1 / 2 then f else if 1 / 2 < r then f + 1 else if even f then f else f + 1)"

definition binaryExponent :: "rat \<Rightarrow> int" where
  "binaryExponent a =
     (let e0 = bitlen (fst (quotient_of a)) - bitlen (snd (quotient_of a))
      in if 2 powi e0 \<le> a then e0 else e0 - 1)"

definition ulp :: "rat \<Rightarrow> rat" where
  "ulp a = 2 powi (max (binaryExponent a) (- 1022) - 52)"

definition fl :: "rat \<Rightarrow> rat" where
  "fl q = (if q = 0 then 0
           else sgn q * (of_int (roundHalfEven (\<bar>q\<bar> / ulp \<bar>q\<bar>)) * ulp \<bar>q\<bar>))"

text \<open>
  A rounded result is a finite double when its magnitude is below \<open>2^1024\<close>, that is, when
  its binary exponent is below 1024. A quotient of doubles is \<open>None\<close> when the divisor is
  zero or the rounded quotient is not finite: the source has an infinity or \<open>NaN\<close> there,
  which are no values of the model.
\<close>

definition isFinite :: "rat \<Rightarrow> bool" where
  "isFinite q \<longleftrightarrow> q = 0 \<or> binaryExponent \<bar>q\<bar> < 1024"

definition fdiv :: "rat \<Rightarrow> rat \<Rightarrow> rat option" where
  "fdiv a b =
     (if b = 0 then None
      else let q = fl (a / b) in if isFinite q then Some q else None)"

text \<open>
  The judge interval both routines compute: \<open>60000 / bpm / (bpm >= 255 ? 1 : 2)\<close>, two
  divisions.
\<close>

definition judgeInterval :: "rat \<Rightarrow> rat option" where
  "judgeInterval b =
     (case fdiv 60000 b of
        None \<Rightarrow> None
      | Some d \<Rightarrow> fdiv d (if b \<ge> 255 then 1 else 2))"

text \<open>
  \<open>Math.floor(time + n * interval)\<close>, the instant of subdivision \<open>n\<close>, and
  \<open>Math.floor(time + (endTime - time) * 0.5)\<close>, the midpoint. The routines reach them with
  a finite interval and a finite \<open>total\<close>, and \<open>n\<close> below \<open>total\<close>: the product and the
  sum are then of the size of the times, far below \<open>2^1024\<close>, and are rounded with no test
  for finiteness.
\<close>

definition judgeInstant :: "int \<Rightarrow> rat \<Rightarrow> int \<Rightarrow> int" where
  "judgeInstant t0 interval n = \<lfloor>fl (of_int t0 + fl (of_int n * interval))\<rfloor>"

definition midpointInstant :: "int \<Rightarrow> int \<Rightarrow> int" where
  "midpointInstant t0 t1 = \<lfloor>fl (of_int t0 + fl (of_int (t1 - t0) * (1 / 2)))\<rfloor>"

text \<open>
  The loop \<open>while(true) { t = Math.floor(time + n * interval); if(t < endTime) push(t);
  if(total == ++n) break; }\<close>, which both routines end with (\<open>t0\<close> and \<open>t1\<close>
  are the note's \<open>time\<close> and \<open>endTime\<close>, \<open>total'\<close> is \<open>total\<close>, \<open>pushed0\<close> is
  \<open>judgeTimings\<close> so far). It leaves only
  when the incremented \<open>n\<close> equals \<open>total\<close>; \<open>None\<close> is a loop that never leaves.
\<close>

partial_function (option) judgeLoop ::
  "int \<Rightarrow> int \<Rightarrow> rat \<Rightarrow> int \<Rightarrow> int \<Rightarrow> int list \<Rightarrow> int list option" where
  "judgeLoop t0 t1 interval total' n pushed0 =
     (let t = judgeInstant t0 interval n;
          pushed = (if t < t1 then pushed0 @ [t] else pushed0)
      in if total' = n + 1 then Some pushed
         else judgeLoop t0 t1 interval total' (n + 1) pushed)"

declare judgeLoop.simps [code]

text \<open>
  \<open>HoldNote.calculateJudgeTimings\<close>. The result is the list left in \<open>judgeTimings\<close>;
  an exception of \<open>getBpmByTiming\<close> passes through. \<open>total\<close> is
  \<open>Math.floor((endTime - time) / interval)\<close>. In the test \<open>u ^ 1 > total\<close> the
  comparison binds tighter than the exclusive or: it is \<open>u ^ (1 > total)\<close>, with
  \<open>true\<close> converted to 1, so with \<open>u = 0\<close> it holds exactly when \<open>1 > total\<close>.
\<close>

definition HoldNote_calculateJudgeTimings :: "TimingGroup \<Rightarrow> HoldNote \<Rightarrow> (error + int list) option" where
  "HoldNote_calculateJudgeTimings g h =
     (let u = (0 :: int) in
      case getBpmByTiming g (HoldNote.time h) of
        Inl e \<Rightarrow> Some (Inl e)
      | Inr b \<Rightarrow>
          if b \<le> 0 then Some (Inr [])
          else
            case judgeInterval b of
              None \<Rightarrow> Some (Inl OutsideModel)
            | Some interval \<Rightarrow>
                (case fdiv (of_int (HoldNote.endTime h - HoldNote.time h)) interval of
                   None \<Rightarrow> Some (Inl OutsideModel)
                 | Some q \<Rightarrow>
                     let total' = \<lfloor>q\<rfloor> in
                     if u XOR (if 1 > total' then 1 else 0) \<noteq> 0 then
                       Some (Inr [midpointInstant (HoldNote.time h) (HoldNote.endTime h)])
                     else
                       map_option Inr
                         (judgeLoop (HoldNote.time h) (HoldNote.endTime h) interval total'
                            (u XOR 1) [])))"

text \<open>
  \<open>Arc.calculateJudgeTimings\<close>: void arcs and arcs of no duration get no judge timing,
  before the tempo is looked up. Here the test is parenthesised: \<open>(u ^ 1) >= total\<close>.
\<close>

definition Arc_calculateJudgeTimings :: "TimingGroup \<Rightarrow> Arc \<Rightarrow> (error + int list) option" where
  "Arc_calculateJudgeTimings g a =
     (if isVoid a then Some (Inr [])
      else if Arc.endTime a = Arc.time a then Some (Inr [])
      else
        let u = (if renderHead a then 0 else 1 :: int) in
        case getBpmByTiming g (Arc.time a) of
          Inl e \<Rightarrow> Some (Inl e)
        | Inr b \<Rightarrow>
            if b \<le> 0 then Some (Inr [])
            else
              case judgeInterval b of
                None \<Rightarrow> Some (Inl OutsideModel)
              | Some interval \<Rightarrow>
                  (case fdiv (of_int (Arc.endTime a - Arc.time a)) interval of
                     None \<Rightarrow> Some (Inl OutsideModel)
                   | Some q \<Rightarrow>
                       let total' = \<lfloor>q\<rfloor> in
                       if (u XOR 1) \<ge> total' then
                         Some (Inr [midpointInstant (Arc.time a) (Arc.endTime a)])
                       else
                         map_option Inr
                           (judgeLoop (Arc.time a) (Arc.endTime a) interval total'
                              (u XOR 1) [])))"

text \<open>
  The instants the loop collects when it starts at \<open>n0 < total\<close>: the instants of the
  subdivisions \<open>n0\<close> to \<open>total - 1\<close>, those before \<open>endTime\<close> kept.
\<close>

definition judgeInstants :: "int \<Rightarrow> int \<Rightarrow> rat \<Rightarrow> int \<Rightarrow> int \<Rightarrow> int list" where
  "judgeInstants t0 t1 interval n0 total' =
     filter (\<lambda>t. t < t1) (map (judgeInstant t0 interval) [n0 .. total' - 1])"

text \<open>
  The enumeration as claim C7 words it, for comparison with the source: \<open>n\<close> starts at 0
  when the head is rendered and at 1 when it is suppressed, and runs up to \<open>total\<close>.
\<close>

definition claimedArcJudgeTimings :: "Arc \<Rightarrow> rat \<Rightarrow> int list" where
  "claimedArcJudgeTimings a b =
     (let interval = 60000 / b / (if b \<ge> 255 then 1 else 2);
          total' = \<lfloor>of_int (Arc.endTime a - Arc.time a) / interval\<rfloor>
      in filter (\<lambda>t. t < Arc.endTime a)
           (map (\<lambda>n. \<lfloor>of_int (Arc.time a) + of_int n * interval\<rfloor>)
                [(if renderHead a then 0 else 1) .. total']))"

text \<open>
  The tempo in force at \<open>t\<close>: \<open>activeAt g t i\<close> holds when \<open>t\<close> lies strictly between
  breakpoint \<open>i\<close> of the group and the next one, or when breakpoint \<open>i\<close> is the last one
  and \<open>t\<close> is at or after it. The tempo in force is then \<open>bpm\<close> of breakpoint \<open>i\<close>.
\<close>

definition activeAt :: "TimingGroup \<Rightarrow> int \<Rightarrow> nat \<Rightarrow> bool" where
  "activeAt g t i \<longleftrightarrow>
     (let timings = getTimingEvents g in
      i < length timings \<and>
      (if i + 1 < length timings
       then TimingEvent.time (timings ! i) < t \<and> t < TimingEvent.time (timings ! (i + 1))
       else TimingEvent.time (timings ! i) \<le> t))"

text \<open>
  A hold on lane 1 and a straight, non-void arc, as test inputs, and a group of four tempi,
  two of which give a judge interval that no double holds exactly.
\<close>

definition holdAt :: "int \<Rightarrow> int \<Rightarrow> HoldNote" where
  "holdAt t0 t1 = \<lparr>HoldNote.time = t0, endTime = t1, lane = 1\<rparr>"

definition arcAt :: "int \<Rightarrow> int \<Rightarrow> bool \<Rightarrow> Arc" where
  "arcAt t0 t1 head =
     \<lparr>Arc.time = t0, endTime = t1, start = \<lparr>Vector2.x = 0, y = 1\<rparr>,
      end' = \<lparr>Vector2.x = 1, y = 1\<rparr>, lineType = ''s'', color = 0, isVoid = False,
      arcTaps = [], judgeTimings = [], renderHead = head, timingGroup = 0\<rparr>"

definition tempoGroup :: TimingGroup where
  "tempoGroup = timingGroupOf [(0, 120), (100, 112), (5000, 84), (9000, 240)]"

section \<open>ArcManager: arc groups\<close>

text \<open>
  An arc is identified by its index in \<open>ArcManager.arcs\<close>; \<open>a == b\<close> and
  \<open>indexOf\<close> compare identities, that is, indices. The arrays that \<open>arcGroup\<close> fields
  point to live in \<open>arrays\<close>, addressed by position, so that two arcs can hold the same
  array: \<open>arcGroup m ! i\<close> is the address held by arc \<open>i\<close>, \<open>None\<close> for \<open>null\<close>.
\<close>

record ArcManager =
  arcs :: "Arc list"
  arcGroup :: "nat option list"
  arrays :: "nat list list"

text \<open>The test of the inner loop on \<open>a\<close> and \<open>b\<close>, and the test that they may share a group.\<close>

definition touches :: "Arc \<Rightarrow> Arc \<Rightarrow> bool" where
  "touches a b \<longleftrightarrow>
     \<bar>Vector2.x (end' a) - Vector2.x (start b)\<bar> < 1 / 10 \<and>
     \<bar>Arc.endTime a - Arc.time b\<bar> \<le> 9 \<and>
     Vector2.y (end' a) = Vector2.y (start b)"

definition sameKind :: "Arc \<Rightarrow> Arc \<Rightarrow> bool" where
  "sameKind a b \<longleftrightarrow>
     color a = color b \<and> isVoid a = isVoid b \<and> timingGroup a = timingGroup b"

text \<open>\<open>if(xs.indexOf(t) == -1) xs.push(t)\<close>.\<close>

definition pushNew :: "nat \<Rightarrow> nat list \<Rightarrow> nat list" where
  "pushNew t xs = (if t \<in> set xs then xs else xs @ [t])"

text \<open>
  The four cases on \<open>a.arcGroup\<close> and \<open>b.arcGroup\<close>, in the order of the source, and
  the push of \<open>b\<close> that follows them. In the third case the elements of \<open>b\<close>'s array are
  pushed, when new, onto \<open>a\<close>'s array.
\<close>

definition mergeGroups :: "nat \<Rightarrow> nat \<Rightarrow> ArcManager \<Rightarrow> ArcManager" where
  "mergeGroups i j m =
     (let m1 =
        (case (arcGroup m ! i, arcGroup m ! j) of
           (None, Some rb) \<Rightarrow> m\<lparr>arcGroup := (arcGroup m)[i := Some rb]\<rparr>
         | (Some ra, None) \<Rightarrow> m\<lparr>arcGroup := (arcGroup m)[j := Some ra]\<rparr>
         | (Some ra, Some rb) \<Rightarrow>
             m\<lparr>arrays := (arrays m)[ra := fold pushNew (arrays m ! rb) (arrays m ! ra)],
               arcGroup := (arcGroup m)[j := Some ra]\<rparr>
         | (None, None) \<Rightarrow>
             m\<lparr>arrays := arrays m @ [[i]],
               arcGroup := (arcGroup m)[i := Some (length (arrays m)), j := Some (length (arrays m))]\<rparr>)
      in case arcGroup m1 ! i of
           None \<Rightarrow> m1
         | Some ra \<Rightarrow> m1\<lparr>arrays := (arrays m1)[ra := pushNew j (arrays m1 ! ra)]\<rparr>)"

text \<open>The body of the inner \<open>forEach\<close>, for the arcs of index \<open>i\<close> and \<open>j\<close>.\<close>

definition relate :: "nat \<Rightarrow> nat \<Rightarrow> ArcManager \<Rightarrow> ArcManager" where
  "relate i j m =
     (if i = j then m
      else
        let a = arcs m ! i; b = arcs m ! j in
        if touches a b then
          let m1 = (if sameKind a b then mergeGroups i j m else m) in
          if isVoid a = isVoid b
          then m1\<lparr>arcs := (arcs m1)[j := (arcs m1 ! j)\<lparr>renderHead := False\<rparr>]\<rparr>
          else m1
        else m)"

text \<open>
  The third \<open>forEach\<close>: an arc without a group gets a new array holding itself; the array
  it points to is then sorted in place by \<open>a.time - b.time\<close>.
\<close>

definition closeGroup :: "nat \<Rightarrow> ArcManager \<Rightarrow> ArcManager" where
  "closeGroup i m =
     (let m1 = (case arcGroup m ! i of
                  None \<Rightarrow> m\<lparr>arrays := arrays m @ [[i]],
                             arcGroup := (arcGroup m)[i := Some (length (arrays m))]\<rparr>
                | Some r \<Rightarrow> m)
      in case arcGroup m1 ! i of
           None \<Rightarrow> m1
         | Some r \<Rightarrow>
             m1\<lparr>arrays := (arrays m1)[r := sort_key (\<lambda>k. Arc.time (arcs m1 ! k)) (arrays m1 ! r)]\<rparr>)"

text \<open>
  The last \<open>forEach\<close> calls \<open>calculateJudgeTimings\<close> on every arc, with the timing group
  the arc belongs to; an exception leaves the loop. In the source the arc holds the group
  itself; an index with no group behind it, which only the model can express, is answered as a
  read through \<open>undefined\<close>.
\<close>

fun judgeAll :: "TimingGroup list \<Rightarrow> Arc list \<Rightarrow> (error + Arc list) option" where
  "judgeAll gs [] = Some (Inr [])"
| "judgeAll gs (a # rest) =
     (if timingGroup a \<ge> length gs then Some (Inl TypeError)
      else
        case Arc_calculateJudgeTimings (gs ! timingGroup a) a of
          None \<Rightarrow> None
        | Some (Inl e) \<Rightarrow> Some (Inl e)
        | Some (Inr ts) \<Rightarrow>
            (case judgeAll gs rest of
               None \<Rightarrow> None
             | Some (Inl e) \<Rightarrow> Some (Inl e)
             | Some (Inr rest') \<Rightarrow> Some (Inr (a\<lparr>judgeTimings := ts\<rparr> # rest'))))"

text \<open>
  \<open>calculateArcRelationship\<close>, on the arcs of the manager and the timing groups of the
  chart they come from.
\<close>

definition calculateArcRelationship ::
  "TimingGroup list \<Rightarrow> Arc list \<Rightarrow> (error + ArcManager) option" where
  "calculateArcRelationship gs as =
     (let n = length as;
          m0 = \<lparr>arcs = map (\<lambda>a. a\<lparr>renderHead := True\<rparr>) as,
                arcGroup = replicate n None,
                arrays = []\<rparr>;
          m1 = fold (\<lambda>i. fold (\<lambda>j. relate i j) [0 ..< n]) [0 ..< n] m0;
          m2 = fold closeGroup [0 ..< n] m1
      in case judgeAll gs (arcs m2) of
           None \<Rightarrow> None
         | Some (Inl e) \<Rightarrow> Some (Inl e)
         | Some (Inr as') \<Rightarrow> Some (Inr (m2\<lparr>arcs := as'\<rparr>)))"

text \<open>The group of arc \<open>i\<close> after the call, as the list of the indices of its members.\<close>

definition groupOf :: "ArcManager \<Rightarrow> nat \<Rightarrow> nat list option" where
  "groupOf m i = map_option (\<lambda>r. arrays m ! r) (arcGroup m ! i)"

text \<open>
  A chain of three arcs: \<open>chainX\<close> (0 to 1000) ends where \<open>chainY\<close> (1000 to 2000)
  starts, which ends where \<open>chainZ\<close> (2000 to 3000) starts.
\<close>

definition chainArc :: "int \<Rightarrow> int \<Rightarrow> rat \<Rightarrow> rat \<Rightarrow> Arc" where
  "chainArc t0 t1 x0 x1 =
     \<lparr>Arc.time = t0, endTime = t1, start = \<lparr>Vector2.x = x0, y = 1\<rparr>,
      end' = \<lparr>Vector2.x = x1, y = 1\<rparr>, lineType = ''s'', color = 0, isVoid = False,
      arcTaps = [], judgeTimings = [], renderHead = True, timingGroup = 0\<rparr>"

definition chainX :: Arc where "chainX = chainArc 0 1000 0 (1 / 2)"

definition chainY :: Arc where "chainY = chainArc 1000 2000 (1 / 2) 1"

definition chainZ :: Arc where "chainZ = chainArc 2000 3000 1 (1 / 2)"

text \<open>The groups of all arcs after the call, by arc index.\<close>

definition groupsAfter :: "TimingGroup list \<Rightarrow> Arc list \<Rightarrow> (error + nat list option list) option" where
  "groupsAfter gs as =
     map_option (map_sum id (\<lambda>m. map (groupOf m) [0 ..< length as]))
       (calculateArcRelationship gs as)"

section \<open>Strings and regular expressions of the runtime\<close>

text \<open>
  A \<open>char\<close> stands for a UTF-16 code unit below 256. \<open>trim\<close> removes white space and
  line terminators at both ends; among these code units they are tab, line feed, vertical
  tab, form feed, carriage return, space and the no-break space.
\<close>

definition isWhiteSpace :: "char \<Rightarrow> bool" where
  "isWhiteSpace c \<longleftrightarrow> of_char c \<in> set [9, 10, 11, 12, 13, 32, 160 :: nat]"

definition trimStart :: "string \<Rightarrow> string" where
  "trimStart s = dropWhile isWhiteSpace s"

definition trim :: "string \<Rightarrow> string" where
  "trim s = rev (dropWhile isWhiteSpace (rev (dropWhile isWhiteSpace s)))"

text \<open>\<open>s.split(sep)\<close> for a separator of one character: never empty.\<close>

fun splitOn :: "char \<Rightarrow> string \<Rightarrow> string list" where
  "splitOn sep [] = [[]]"
| "splitOn sep (c # cs) =
     (if c = sep then [] # splitOn sep cs
      else (case splitOn sep cs of [] \<Rightarrow> [[c]] | r # rs \<Rightarrow> (c # r) # rs))"

definition startsWith :: "string \<Rightarrow> string \<Rightarrow> bool" where
  "startsWith s p \<longleftrightarrow> take (length p) s = p"

text \<open>\<open>s.indexOf(c)\<close> for one character, \<open>None\<close> for -1.\<close>

fun indexOf :: "string \<Rightarrow> char \<Rightarrow> nat option" where
  "indexOf [] c = None"
| "indexOf (d # ds) c = (if d = c then Some 0 else map_option Suc (indexOf ds c))"

text \<open>
  \<open>s.substring(a, b)\<close>: both arguments are clamped to \<open>[0, length]\<close> and swapped when
  the first is the larger.
\<close>

definition substring :: "string \<Rightarrow> int \<Rightarrow> int \<Rightarrow> string" where
  "substring s a b =
     (let n = int (length s);
          a' = max 0 (min n a);
          b' = max 0 (min n b);
          lo = min a' b';
          hi = max a' b'
      in take (nat (hi - lo)) (drop (nat lo) s))"

text \<open>
  The regular expressions of the source use literals, the classes \<open>.\<close> and \<open>\d\<close> under
  \<open>*\<close>, \<open>*?\<close> and \<open>+?\<close>, capturing groups that are not nested, and the optional
  forms \<open>-?\<close> and \<open>(?:...)?\<close>. \<open>GroupEnd\<close> is not written in a pattern: the matcher
  leaves it after the body of a group, with the input at which the group started.
\<close>

datatype cclass = AnyChar | Digit

datatype re =
    Lit string
  | Star cclass
  | LazyStar cclass
  | LazyPlus cclass
  | Group "re list"
  | Opt "re list"
  | GroupEnd string

definition isDigit :: "char \<Rightarrow> bool" where
  "isDigit c \<longleftrightarrow> 48 \<le> (of_char c :: nat) \<and> (of_char c :: nat) \<le> 57"

text \<open>\<open>.\<close> matches every character but a line terminator.\<close>

fun inClass :: "cclass \<Rightarrow> char \<Rightarrow> bool" where
  "inClass AnyChar c \<longleftrightarrow> of_char c \<notin> set [10, 13 :: nat]"
| "inClass Digit c \<longleftrightarrow> isDigit c"

fun reSize :: "re \<Rightarrow> nat" where
  "reSize (Group rs) = 2 + sum_list (map reSize rs)"
| "reSize (Opt rs) = 1 + sum_list (map reSize rs)"
| "reSize _ = 1"

fun groupCount :: "re \<Rightarrow> nat" where
  "groupCount (Group rs) = 1 + sum_list (map groupCount rs)"
| "groupCount (Opt rs) = sum_list (map groupCount rs)"
| "groupCount _ = 0"

text \<open>
  \<open>matchHere rs s\<close> matches the sequence \<open>rs\<close> at the start of \<open>s\<close>, by backtracking
  in the order of the runtime: a lazy quantifier tries the rest of the pattern before it
  takes a character, a greedy one and an optional part after. It returns the captures in
  the order of the groups, \<open>None\<close> (\<open>undefined\<close>) for a group in an optional part that
  was left out.
\<close>

function matchHere :: "re list \<Rightarrow> string \<Rightarrow> string option list option" where
  "matchHere [] s = Some []"
| "matchHere (Lit l # rs) s =
     (if take (length l) s = l then matchHere rs (drop (length l) s) else None)"
| "matchHere (LazyStar k # rs) s =
     (case matchHere rs s of
        Some caps \<Rightarrow> Some caps
      | None \<Rightarrow>
          (case s of
             [] \<Rightarrow> None
           | c # s' \<Rightarrow> if inClass k c then matchHere (LazyStar k # rs) s' else None))"
| "matchHere (LazyPlus k # rs) s =
     (case s of
        [] \<Rightarrow> None
      | c # s' \<Rightarrow> if inClass k c then matchHere (LazyStar k # rs) s' else None)"
| "matchHere (Star k # rs) s =
     (case s of
        [] \<Rightarrow> matchHere rs s
      | c # s' \<Rightarrow>
          if inClass k c then
            (case matchHere (Star k # rs) s' of
               Some caps \<Rightarrow> Some caps
             | None \<Rightarrow> matchHere rs s)
          else matchHere rs s)"
| "matchHere (Opt body # rs) s =
     (case matchHere (body @ rs) s of
        Some caps \<Rightarrow> Some caps
      | None \<Rightarrow>
          map_option (\<lambda>caps. replicate (sum_list (map groupCount body)) None @ caps)
            (matchHere rs s))"
| "matchHere (Group body # rs) s = matchHere (body @ GroupEnd s # rs) s"
| "matchHere (GroupEnd s0 # rs) s =
     map_option (\<lambda>caps. Some (take (length s0 - length s) s0) # caps) (matchHere rs s)"
  by pat_completeness auto
termination
  by (relation "measures [\<lambda>(rs, s). length s, \<lambda>(rs, s). sum_list (map reSize rs)]") auto

text \<open>\<open>s.match(re)\<close> without the global flag: the leftmost match, \<open>None\<close> for \<open>null\<close>.\<close>

fun match :: "string \<Rightarrow> re list \<Rightarrow> string option list option" where
  "match [] rs = matchHere rs []"
| "match (c # s) rs =
     (case matchHere rs (c # s) of
        Some caps \<Rightarrow> Some caps
      | None \<Rightarrow> match s rs)"

text \<open>Reading capture \<open>i\<close> (from 1) of a match: \<open>undefined\<close> is \<open>None\<close>.\<close>

definition capture :: "string option list \<Rightarrow> nat \<Rightarrow> string option" where
  "capture caps i = (if 0 < i \<and> i \<le> length caps then caps ! (i - 1) else None)"

section \<open>Numbers and text\<close>

definition digitValue :: "char \<Rightarrow> nat" where
  "digitValue c =
     (let n = (of_char c :: nat) in
      if 48 \<le> n \<and> n \<le> 57 then n - 48
      else if 97 \<le> n \<and> n \<le> 102 then n - 87
      else n - 55)"

definition isHexDigit :: "char \<Rightarrow> bool" where
  "isHexDigit c \<longleftrightarrow>
     (let n = (of_char c :: nat) in
      (48 \<le> n \<and> n \<le> 57) \<or> (97 \<le> n \<and> n \<le> 102) \<or> (65 \<le> n \<and> n \<le> 70))"

definition digitsValue :: "nat \<Rightarrow> string \<Rightarrow> nat" where
  "digitsValue radix ds = foldl (\<lambda>v c. v * radix + digitValue c) 0 ds"

text \<open>The optional sign both parsers read first.\<close>

definition signOf :: "string \<Rightarrow> int \<times> string" where
  "signOf s =
     (case s of
        c # r \<Rightarrow> if c = CHR ''-'' then (- 1, r) else if c = CHR ''+'' then (1, r) else (1, s)
      | [] \<Rightarrow> (1, s))"

text \<open>
  \<open>parseInt(s)\<close> with no radix: leading white space, a sign, \<open>0x\<close> or \<open>0X\<close> for
  radix 16, then the longest run of digits; \<open>None\<close> is \<open>NaN\<close>.
\<close>

definition parseInt :: "string \<Rightarrow> int option" where
  "parseInt s =
     (let (sign, s1) = signOf (trimStart s);
          hex = (startsWith s1 ''0x'' \<or> startsWith s1 ''0X'');
          s2 = (if hex then drop 2 s1 else s1);
          ds = takeWhile (if hex then isHexDigit else isDigit) s2
      in if ds = [] then None
         else Some (sign * int (digitsValue (if hex then 16 else 10) ds)))"

text \<open>
  The exponent part of a decimal literal: \<open>e\<close>, a sign, digits. It counts only when it
  has a digit.
\<close>

definition exponentOf :: "string \<Rightarrow> int" where
  "exponentOf s =
     (case s of
        [] \<Rightarrow> 0
      | c # r \<Rightarrow>
          if c = CHR ''e'' \<or> c = CHR ''E'' then
            (let (sign, r1) = signOf r; ds = takeWhile isDigit r1
             in if ds = [] then 0 else sign * int (digitsValue 10 ds))
          else 0)"

text \<open>
  \<open>parseFloat(s)\<close>: leading white space, a sign, then the longest prefix that is a decimal
  literal. \<open>None\<close> is \<open>NaN\<close>, and also \<open>Infinity\<close>, which is not a value of the model.
\<close>

definition parseFloat :: "string \<Rightarrow> rat option" where
  "parseFloat s =
     (let (sign, s1) = signOf (trimStart s);
          ip = takeWhile isDigit s1;
          r1 = dropWhile isDigit s1;
          fp = (case r1 of [] \<Rightarrow> [] | c # r \<Rightarrow> if c = CHR ''.'' then takeWhile isDigit r else []);
          r2 = (case r1 of [] \<Rightarrow> [] | c # r \<Rightarrow> if c = CHR ''.'' then dropWhile isDigit r else r1);
          e = exponentOf r2;
          m = of_nat (digitsValue 10 ip) + of_nat (digitsValue 10 fp) / 10 ^ length fp
      in if ip = [] \<and> fp = [] then None
         else Some (of_int sign * (if e \<ge> 0 then m * 10 ^ nat e else m / 10 ^ nat (- e))))"

text \<open>
  Decimal digits of a natural number, and an integer as a template literal prints it (the
  runtime switches to an exponent from \<open>10^21\<close> on, far beyond the integers a double
  holds exactly).
\<close>

definition digitChar :: "nat \<Rightarrow> char" where
  "digitChar n = ''0123456789'' ! n"

fun natToString :: "nat \<Rightarrow> string" where
  "natToString n =
     (if n < 10 then [digitChar n]
      else natToString (n div 10) @ [digitChar (n mod 10)])"

declare natToString.simps [simp del]

definition intToString :: "int \<Rightarrow> string" where
  "intToString i = (if i < 0 then CHR ''-'' # natToString (nat (- i)) else natToString (nat i))"

text \<open>
  A number that is not an integer, as a template literal prints it: its decimal expansion,
  when that is finite and the number is at least \<open>10^-6\<close> in magnitude. The runtime prints
  other numbers from their binary representation or with an exponent, which is not modelled.
  A finite expansion has no more digits than four times the digits of the denominator.
\<close>

definition fractionDigits :: "rat \<Rightarrow> nat option" where
  "fractionDigits q =
     find (\<lambda>k. q * 10 ^ k = of_int \<lfloor>q * 10 ^ k\<rfloor>)
          [0 ..< 4 * length (natToString (nat (snd (quotient_of q)))) + 1]"

definition padLeft :: "nat \<Rightarrow> string \<Rightarrow> string" where
  "padLeft n s = replicate (n - length s) CHR ''0'' @ s"

definition signText :: "rat \<Rightarrow> string" where
  "signText q = (if q < 0 then [CHR ''-''] else [])"

definition numToString :: "rat \<Rightarrow> error + string" where
  "numToString q =
     (if q = of_int \<lfloor>q\<rfloor> then Inr (intToString \<lfloor>q\<rfloor>)
      else if \<bar>q\<bar> < 1 / 10 ^ 6 then Inl OutsideModel
      else
        case fractionDigits \<bar>q\<bar> of
          None \<Rightarrow> Inl OutsideModel
        | Some k \<Rightarrow>
            Inr (signText q @ natToString (nat \<lfloor>\<bar>q\<bar>\<rfloor>) @ [CHR ''.'']
                 @ padLeft k (natToString (nat \<lfloor>(\<bar>q\<bar> - of_int \<lfloor>\<bar>q\<bar>\<rfloor>) * 10 ^ k\<rfloor>))))"

text \<open>
  The decimal exponent of a positive number \<open>a\<close>: the \<open>e\<close> with
  \<open>10^e \<le> a < 10^(e+1)\<close>. Below 1 it is found by scaling up one digit at a time, which
  takes no more steps than the denominator has digits.
\<close>

definition decimalExponent :: "rat \<Rightarrow> int" where
  "decimalExponent a =
     (if 1 \<le> a then int (length (natToString (nat \<lfloor>a\<rfloor>))) - 1
      else
        case find (\<lambda>k. 1 \<le> a * 10 ^ k)
                  [1 ..< length (natToString (nat (snd (quotient_of a)))) + 1] of
          Some k \<Rightarrow> - int k
        | None \<Rightarrow> 0)"

definition scale10 :: "rat \<Rightarrow> int \<Rightarrow> rat" where
  "scale10 a e = (if e \<ge> 0 then a * 10 ^ nat e else a / 10 ^ nat (- e))"

text \<open>
  \<open>Number.prototype.toPrecision(p)\<close>: a precision outside 1 to 100 throws; otherwise
  \<open>p\<close> significant digits \<open>n\<close>, rounded to nearest with ties upward in magnitude, in
  exponential notation when the exponent \<open>e\<close> is below -6 or at least \<open>p\<close>, in fixed
  notation otherwise.
\<close>

definition toPrecision :: "rat \<Rightarrow> int \<Rightarrow> error + string" where
  "toPrecision q p =
     (if p < 1 \<or> p > 100 then Inl RangeError
      else if q = 0 then
        Inr (if p = 1 then ''0'' else ''0.'' @ replicate (nat (p - 1)) CHR ''0'')
      else
        let a = \<bar>q\<bar>;
            e0 = decimalExponent a;
            n0 = \<lfloor>scale10 a (p - 1 - e0) + 1 / 2\<rfloor>;
            n = (if n0 = 10 ^ nat p then 10 ^ nat (p - 1) else n0);
            e = (if n0 = 10 ^ nat p then e0 + 1 else e0);
            m = natToString (nat n)
        in Inr (signText q @
                (if e < - 6 \<or> e \<ge> p then
                   take 1 m @ (if p = 1 then [] else [CHR ''.''] @ drop 1 m) @ [CHR ''e'']
                   @ (if e \<ge> 0 then [CHR ''+''] else [CHR ''-'']) @ natToString (nat \<bar>e\<bar>)
                 else if e = p - 1 then m
                 else if e \<ge> 0 then take (nat (e + 1)) m @ [CHR ''.''] @ drop (nat (e + 1)) m
                 else ''0.'' @ replicate (nat (- (e + 1))) CHR ''0'' @ m)))"

text \<open>
  \<open>Utils.numTo2f\<close>: \<open>d\<close> is 1 for a magnitude of 0 or 1 and otherwise
  \<open>Math.ceil(Math.log10(Math.abs(num)) + 0.00001)\<close>, with the logarithm taken over the
  reals; the result is \<open>num.toPrecision(2 + d)\<close>. For a magnitude below about 0.01 the
  precision is below 1 and \<open>toPrecision\<close> throws.
\<close>

definition numTo2f :: "rat \<Rightarrow> error + string" where
  "numTo2f num =
     (let d = (if \<bar>num\<bar> = 1 \<or> \<bar>num\<bar> = 0 then 1
               else \<lceil>log 10 (real_of_rat \<bar>num\<bar>) + 1 / 100000\<rceil>)
      in toPrecision num (2 + d))"

section \<open>Events from text\<close>

text \<open>
  A numeric field is read with \<open>parseInt(result[i])\<close> or \<open>parseFloat(result[i])\<close>;
  \<open>None\<close> is \<open>NaN\<close>. An event whose constructor would receive \<open>NaN\<close> is outside the
  model: the parsers below return \<open>Inl OutsideModel\<close> for it, where the source builds the
  event with \<open>NaN\<close> in the field.
\<close>

definition intField :: "string option list \<Rightarrow> nat \<Rightarrow> int option" where
  "intField caps i = (case capture caps i of None \<Rightarrow> None | Some s \<Rightarrow> parseInt s)"

definition floatField :: "string option list \<Rightarrow> nat \<Rightarrow> rat option" where
  "floatField caps i = (case capture caps i of None \<Rightarrow> None | Some s \<Rightarrow> parseFloat s)"

fun allSome :: "'a option list \<Rightarrow> 'a list option" where
  "allSome [] = Some []"
| "allSome (None # _) = None"
| "allSome (Some v # rest) = map_option ((#) v) (allSome rest)"

text \<open>The pattern \<open>/\((.*?),(.*?)\)/\<close>.\<close>

definition tapPattern :: "re list" where
  "tapPattern =
     [Lit ''('', Group [LazyStar AnyChar], Lit '','', Group [LazyStar AnyChar], Lit '')'']"

definition TapNote_fromRaw :: "string \<Rightarrow> error + TapNote" where
  "TapNote_fromRaw line =
     (case match line tapPattern of
        None \<Rightarrow> Inl TypeError
      | Some result \<Rightarrow>
          (case allSome [intField result 1, intField result 2] of
             Some [t, l] \<Rightarrow> Inr \<lparr>TapNote.time = t, lane = l\<rparr>
           | _ \<Rightarrow> Inl OutsideModel))"

text \<open>The pattern \<open>/hold\((.*?),(.*?),(.*?)\)/\<close>.\<close>

definition holdPattern :: "re list" where
  "holdPattern =
     [Lit ''hold('', Group [LazyStar AnyChar], Lit '','', Group [LazyStar AnyChar], Lit '','',
      Group [LazyStar AnyChar], Lit '')'']"

definition HoldNote_fromRaw :: "string \<Rightarrow> error + HoldNote" where
  "HoldNote_fromRaw line =
     (case match line holdPattern of
        None \<Rightarrow> Inl TypeError
      | Some result \<Rightarrow>
          (case allSome [intField result 1, intField result 2, intField result 3] of
             Some [t, e, l] \<Rightarrow> Inr \<lparr>HoldNote.time = t, endTime = e, lane = l\<rparr>
           | _ \<Rightarrow> Inl OutsideModel))"

text \<open>
  The pattern
  \<open>/arc\((\d+?),(\d+?),(.*?),(.*?),(.*?),(.*?),(.*?),(.*?),(.*?),(.*?)\)(?:\[(.*?)\])?;/\<close>.
\<close>

definition arcPattern :: "re list" where
  "arcPattern =
     [Lit ''arc('', Group [LazyPlus Digit], Lit '','', Group [LazyPlus Digit], Lit '','',
      Group [LazyStar AnyChar], Lit '','', Group [LazyStar AnyChar], Lit '','',
      Group [LazyStar AnyChar], Lit '','', Group [LazyStar AnyChar], Lit '','',
      Group [LazyStar AnyChar], Lit '','', Group [LazyStar AnyChar], Lit '','',
      Group [LazyStar AnyChar], Lit '','', Group [LazyStar AnyChar], Lit '')'',
      Opt [Lit ''['', Group [LazyStar AnyChar], Lit '']''], Lit '';'']"

text \<open>
  The arctaps: when capture 11 is defined and not empty it is split at the commas, and each
  part \<open>n\<close> gives the time \<open>parseInt(n.substring("arctap(".length, n.length - 1))\<close>.
\<close>

definition arctapTimes :: "string option \<Rightarrow> int option list" where
  "arctapTimes arctaps =
     (case arctaps of
        None \<Rightarrow> []
      | Some s \<Rightarrow>
          if s = [] then []
          else map (\<lambda>n. parseInt (substring n 7 (int (length n) - 1))) (splitOn CHR '','' s))"

definition Arc_fromRaw :: "string \<Rightarrow> nat \<Rightarrow> error + Arc" where
  "Arc_fromRaw line tg =
     (if \<not> startsWith line ''arc'' then
        Inl (AffFormatError ''The given data doesn't represent an arc.'')
      else
        case match line arcPattern of
          None \<Rightarrow> Inl TypeError
        | Some event \<Rightarrow>
            (case (allSome [intField event 1, intField event 2, intField event 8],
                   allSome [floatField event 3, floatField event 4, floatField event 6,
                            floatField event 7],
                   allSome (arctapTimes (capture event 11))) of
               (Some [t, e, c], Some [xStart, xEnd, yStart, yEnd], Some taps) \<Rightarrow>
                 Inr \<lparr>Arc.time = t, endTime = e,
                      start = \<lparr>Vector2.x = xStart, y = yStart\<rparr>,
                      end' = \<lparr>Vector2.x = xEnd, y = yEnd\<rparr>,
                      lineType = (case capture event 5 of None \<Rightarrow> [] | Some s \<Rightarrow> s),
                      color = c,
                      isVoid = (capture event 10 = Some ''true''),
                      arcTaps = map (\<lambda>t. \<lparr>ArctapNote.time = t\<rparr>) taps,
                      judgeTimings = [], renderHead = True, timingGroup = tg\<rparr>
             | _ \<Rightarrow> Inl OutsideModel))"

text \<open>The pattern \<open>/timing\((.*?),(.*?),(.*?)\)/\<close>.\<close>

definition timingPattern :: "re list" where
  "timingPattern =
     [Lit ''timing('', Group [LazyStar AnyChar], Lit '','', Group [LazyStar AnyChar], Lit '','',
      Group [LazyStar AnyChar], Lit '')'']"

definition TimingEvent_fromRaw :: "string \<Rightarrow> error + TimingEvent" where
  "TimingEvent_fromRaw line =
     (case match line timingPattern of
        None \<Rightarrow> Inl TypeError
      | Some result \<Rightarrow>
          (case (intField result 1, allSome [floatField result 2, floatField result 3]) of
             (Some t, Some [b, l]) \<Rightarrow> Inr \<lparr>TimingEvent.time = t, bpm = b, beatsPerLine = l\<rparr>
           | _ \<Rightarrow> Inl OutsideModel))"

text \<open>
  The pattern \<open>/camera\((.*?),(.*?),(.*?),(.*?),(.*?),(.*?),(.*?),(.*?),(.*?)\)/\<close>.
\<close>

definition cameraPattern :: "re list" where
  "cameraPattern =
     [Lit ''camera('', Group [LazyStar AnyChar], Lit '','', Group [LazyStar AnyChar], Lit '','',
      Group [LazyStar AnyChar], Lit '','', Group [LazyStar AnyChar], Lit '','',
      Group [LazyStar AnyChar], Lit '','', Group [LazyStar AnyChar], Lit '','',
      Group [LazyStar AnyChar], Lit '','', Group [LazyStar AnyChar], Lit '','',
      Group [LazyStar AnyChar], Lit '')'']"

definition CameraEvent_fromRaw :: "string \<Rightarrow> error + CameraEvent" where
  "CameraEvent_fromRaw line =
     (case match line cameraPattern of
        None \<Rightarrow> Inl TypeError
      | Some result \<Rightarrow>
          (case (allSome [intField result 1, intField result 9],
                 allSome [floatField result 2, floatField result 3, floatField result 4,
                          floatField result 5, floatField result 6, floatField result 7]) of
             (Some [t, d], Some [tx, ty, tz, rx, ry, rz]) \<Rightarrow>
               Inr \<lparr>CameraEvent.time = t,
                    translation = \<lparr>Vector3.x = tx, y = ty, z = tz\<rparr>,
                    rotation = \<lparr>Vector3.x = rx, y = ry, z = rz\<rparr>,
                    type = (case capture result 8 of None \<Rightarrow> [] | Some s \<Rightarrow> s),
                    duration = d\<rparr>
           | _ \<Rightarrow> Inl OutsideModel))"

text \<open>
  \<open>ArcaeaEvent.fromRaw\<close>: \<open>Inr None\<close> is the \<open>null\<close> returned for a line without
  \<open>(\<close>; \<open>kind\<close> is the source's \<open>type\<close>, the text before the first \<open>(\<close>.
\<close>

definition ArcaeaEvent_fromRaw :: "string \<Rightarrow> nat \<Rightarrow> error + ArcaeaEvent option" where
  "ArcaeaEvent_fromRaw line tg =
     (case indexOf line CHR ''('' of
        None \<Rightarrow> Inr None
      | Some index \<Rightarrow>
          let kind = substring line 0 (int index) in
          if kind = [] then map_sum id (\<lambda>e. Some (ETap e)) (TapNote_fromRaw line)
          else if kind = ''hold'' then map_sum id (\<lambda>e. Some (EHold e)) (HoldNote_fromRaw line)
          else if kind = ''arc'' then map_sum id (\<lambda>e. Some (EArc e)) (Arc_fromRaw line tg)
          else if kind = ''timing'' then
            map_sum id (\<lambda>e. Some (ETiming e)) (TimingEvent_fromRaw line)
          else if kind = ''camera'' then
            map_sum id (\<lambda>e. Some (ECamera e)) (CameraEvent_fromRaw line)
          else Inl (AffFormatError (''Unknown event type: '' @ kind @ ''.'')))"

section \<open>Chart: text to chart\<close>

record Chart =
  timingGroups :: "TimingGroup list"
  offset :: int

text \<open>The pattern \<open>/AudioOffset:(-?\d*)/\<close>.\<close>

definition offsetPattern :: "re list" where
  "offsetPattern = [Lit ''AudioOffset:'', Group [Opt [Lit ''-''], Star Digit]]"

text \<open>\<open>targetGroup.events.push(event)\<close>, the target group given by its index.\<close>

definition pushEvent :: "ArcaeaEvent \<Rightarrow> Chart \<times> nat \<Rightarrow> Chart \<times> nat" where
  "pushEvent event st =
     (case st of (chart, target) \<Rightarrow>
        (chart\<lparr>timingGroups :=
                 (timingGroups chart)
                   [target := (timingGroups chart ! target)
                                \<lparr>events := events (timingGroups chart ! target) @ [event]\<rparr>]\<rparr>,
         target))"

text \<open>
  The callback of \<open>lines.forEach\<close> in \<open>Chart.fromRaw\<close>, on line \<open>i\<close>. The state is the
  chart and the index of \<open>targetGroup\<close> in \<open>chart.timingGroups\<close>; the primary group is at
  index 0. The capture of the offset pattern is an optional \<open>-\<close> and digits, so
  \<open>parseFloat\<close> of it is an integer or \<open>NaN\<close>.
\<close>

definition readLine :: "nat \<Rightarrow> string \<Rightarrow> Chart \<times> nat \<Rightarrow> error + Chart \<times> nat" where
  "readLine i line st =
     (case st of (chart, target) \<Rightarrow>
        if i = 0 then
          (case match (trim line) offsetPattern of
             None \<Rightarrow>
               Inl (AffFormatError ''Invalid Arcaea chart format. Could't read AudioOffset.'')
           | Some result \<Rightarrow>
               (case floatField result 1 of
                  None \<Rightarrow> Inl OutsideModel
                | Some v \<Rightarrow> Inr (chart\<lparr>offset := \<lfloor>v\<rfloor>\<rparr>, target)))
        else if i = 1 then
          (if trim line \<noteq> ''-'' then
             Inl (AffFormatError
                    ''Invalid Arcaea chart format. The 2nd line must be exactly \"-\".'')
           else Inr st)
        else if startsWith line ''timinggroup('' then
          Inr (chart\<lparr>timingGroups :=
                       timingGroups chart @ [\<lparr>isPrimary = False, events = []\<rparr>]\<rparr>,
               length (timingGroups chart))
        else if startsWith line ''};'' then Inr (chart, 0)
        else
          (case ArcaeaEvent_fromRaw (trim line) target of
             Inl e \<Rightarrow> Inl e
           | Inr None \<Rightarrow> Inr st
           | Inr (Some event) \<Rightarrow> Inr (pushEvent event st)))"

fun readLines :: "nat \<Rightarrow> string list \<Rightarrow> Chart \<times> nat \<Rightarrow> error + Chart \<times> nat" where
  "readLines i [] st = Inr st"
| "readLines i (line # rest) st =
     (case readLine i line st of
        Inl e \<Rightarrow> Inl e
      | Inr st' \<Rightarrow> readLines (i + 1) rest st')"

definition Chart_fromRaw :: "string \<Rightarrow> error + Chart" where
  "Chart_fromRaw raw =
     map_sum id fst
       (readLines 0 (splitOn CHR ''\<newline>'' raw)
          (\<lparr>timingGroups = [\<lparr>isPrimary = True, events = []\<rparr>], offset = 0\<rparr>, 0))"

section \<open>Chart: chart to text\<close>

text \<open>Joining texts of which any may have failed; the first failure wins.\<close>

fun joinAll :: "string \<Rightarrow> (error + string) list \<Rightarrow> error + string" where
  "joinAll sep [] = Inr []"
| "joinAll sep [p] = p"
| "joinAll sep (p # rest) =
     (case p of
        Inl e \<Rightarrow> Inl e
      | Inr s \<Rightarrow> (case joinAll sep rest of Inl e \<Rightarrow> Inl e | Inr t \<Rightarrow> Inr (s @ sep @ t)))"

definition TapNote_export :: "TapNote \<Rightarrow> int \<Rightarrow> error + string" where
  "TapNote_export n off =
     Inr (''('' @ intToString (TapNote.time n + off) @ '','' @ intToString (TapNote.lane n) @ '');'')"

definition HoldNote_export :: "HoldNote \<Rightarrow> int \<Rightarrow> error + string" where
  "HoldNote_export n off =
     Inr (''hold('' @ intToString (HoldNote.time n + off) @ '',''
          @ intToString (HoldNote.endTime n + off) @ '','' @ intToString (HoldNote.lane n) @ '');'')"

definition ArctapNote_export :: "ArctapNote \<Rightarrow> int \<Rightarrow> error + string" where
  "ArctapNote_export n off = Inr (''arctap('' @ intToString (ArctapNote.time n + off) @ '');'')"

text \<open>
  \<open>Arc.export\<close>. Each arctap's text loses its last character:
  \<open>l.substring(l, l.length - 1)\<close>, where the first argument, a text that is no number,
  counts as 0.
\<close>

definition Arc_export :: "Arc \<Rightarrow> int \<Rightarrow> error + string" where
  "Arc_export a off =
     (case joinAll '',''
             [Inr (''arc('' @ intToString (Arc.time a + off)),
              Inr (intToString (Arc.endTime a + off)),
              numTo2f (Vector2.x (start a)),
              numTo2f (Vector2.x (end' a)),
              Inr (lineType a),
              numTo2f (Vector2.y (start a)),
              numTo2f (Vector2.y (end' a)),
              Inr (intToString (color a)),
              Inr ''none'',
              Inr ((if isVoid a then ''true'' else ''false'') @ '')'')] of
        Inl e \<Rightarrow> Inl e
      | Inr line \<Rightarrow>
          if arcTaps a = [] then Inr (line @ '';'')
          else
            (case joinAll '',''
                    (map (\<lambda>t. map_sum id (\<lambda>l. substring l 0 (int (length l) - 1))
                                 (ArctapNote_export t off))
                         (arcTaps a)) of
               Inl e \<Rightarrow> Inl e
             | Inr taps \<Rightarrow> Inr (line @ ''['' @ taps @ ''];'')))"

definition TimingEvent_export :: "TimingEvent \<Rightarrow> int \<Rightarrow> error + string" where
  "TimingEvent_export t off =
     (case joinAll '',''
             [Inr (''timing('' @ intToString (TimingEvent.time t + off)),
              numTo2f (bpm t),
              numTo2f (beatsPerLine t)] of
        Inl e \<Rightarrow> Inl e
      | Inr line \<Rightarrow> Inr (line @ '');''))"

definition CameraEvent_export :: "CameraEvent \<Rightarrow> int \<Rightarrow> error + string" where
  "CameraEvent_export c off =
     (case joinAll '',''
             [Inr (''camera('' @ intToString (CameraEvent.time c + off)),
              numToString (Vector3.x (translation c)),
              numToString (Vector3.y (translation c)),
              numToString (Vector3.z (translation c)),
              numToString (Vector3.x (rotation c)),
              numToString (Vector3.y (rotation c)),
              numToString (Vector3.z (rotation c)),
              Inr (type c),
              Inr (intToString (duration c))] of
        Inl e \<Rightarrow> Inl e
      | Inr line \<Rightarrow> Inr (line @ '');''))"

fun ArcaeaEvent_export :: "ArcaeaEvent \<Rightarrow> int \<Rightarrow> error + string" where
  "ArcaeaEvent_export (ETap n) off = TapNote_export n off"
| "ArcaeaEvent_export (EHold n) off = HoldNote_export n off"
| "ArcaeaEvent_export (EArc a) off = Arc_export a off"
| "ArcaeaEvent_export (ETiming t) off = TimingEvent_export t off"
| "ArcaeaEvent_export (ECamera c) off = CameraEvent_export c off"

definition TimingGroup_export :: "TimingGroup \<Rightarrow> int \<Rightarrow> error + string" where
  "TimingGroup_export g off =
     (case joinAll []
             (map (\<lambda>e. map_sum id
                          (\<lambda>l. (if isPrimary g then [] else ''    '') @ l @ [CHR ''\<newline>''])
                          (ArcaeaEvent_export e off))
                  (events g)) of
        Inl e \<Rightarrow> Inl e
      | Inr content \<Rightarrow>
          Inr ((if isPrimary g then [] else ''timinggroup(){'' @ [CHR ''\<newline>''])
               @ content
               @ (if isPrimary g then [] else ''};'' @ [CHR ''\<newline>''])))"

definition Chart_export :: "Chart \<Rightarrow> bool \<Rightarrow> error + string" where
  "Chart_export chart fixOffset =
     (case joinAll []
             (map (\<lambda>t. TimingGroup_export t (if fixOffset then Chart.offset chart else 0))
                  (timingGroups chart)) of
        Inl e \<Rightarrow> Inl e
      | Inr body \<Rightarrow>
          Inr (''AudioOffset:'' @ intToString (if fixOffset then 0 else Chart.offset chart)
               @ [CHR ''\<newline>''] @ ''-'' @ [CHR ''\<newline>''] @ body))"

text \<open>The chart text of the scenario, and the chart it stands for.\<close>

definition scenarioText :: string where
  "scenarioText = ''AudioOffset:0\<newline>-\<newline>timing(0,120,4);\<newline>(1000,1);\<newline>''"

definition scenarioChart :: Chart where
  "scenarioChart =
     \<lparr>timingGroups =
        [\<lparr>isPrimary = True,
          events = [ETiming \<lparr>TimingEvent.time = 0, bpm = 120, beatsPerLine = 4\<rparr>,
                    ETap \<lparr>TapNote.time = 1000, lane = 1\<rparr>]\<rparr>],
      offset = 0\<rparr>"

text \<open>The text that \<open>export(false)\<close> gives for the scenario.\<close>

definition exportedText :: string where
  "exportedText = ''AudioOffset:0\<newline>-\<newline>timing(0,120.00,4.00);\<newline>(1000,1);\<newline>''"

text \<open>The state before the first line, and a chart text with a line that is no event.\<close>

definition startState :: "Chart \<times> nat" where
  "startState = (\<lparr>timingGroups = [\<lparr>isPrimary = True, events = []\<rparr>], offset = 0\<rparr>, 0)"

definition skippingText :: string where
  "skippingText = ''AudioOffset:0\<newline>-\<newline>garbage\<newline>(1000,1);\<newline>''"

text \<open>
  The pattern each variant matches its line against, by the text before the first \<open>(\<close>,
  and the lines that are well formed for a variant: the pattern matches, and every field that
  \<open>parseInt\<close> or \<open>parseFloat\<close> reads holds a number.
\<close>

definition patternOf :: "string \<Rightarrow> re list" where
  "patternOf kind =
     (if kind = [] then tapPattern
      else if kind = ''hold'' then holdPattern
      else if kind = ''arc'' then arcPattern
      else if kind = ''timing'' then timingPattern
      else cameraPattern)"

definition numbersIn :: "string \<Rightarrow> string option list \<Rightarrow> bool" where
  "numbersIn kind caps \<longleftrightarrow>
     (if kind = [] then None \<notin> set [intField caps 1, intField caps 2]
      else if kind = ''hold'' then None \<notin> set [intField caps 1, intField caps 2, intField caps 3]
      else if kind = ''arc'' then
        None \<notin> set [intField caps 1, intField caps 2, intField caps 8] \<and>
        None \<notin> set [floatField caps 3, floatField caps 4, floatField caps 6, floatField caps 7] \<and>
        None \<notin> set (arctapTimes (capture caps 11))
      else if kind = ''timing'' then
        intField caps 1 \<noteq> None \<and> None \<notin> set [floatField caps 2, floatField caps 3]
      else
        None \<notin> set [intField caps 1, intField caps 9] \<and>
        None \<notin> set [floatField caps 2, floatField caps 3, floatField caps 4,
                       floatField caps 5, floatField caps 6, floatField caps 7])"

definition wellFormed :: "string \<Rightarrow> string \<Rightarrow> bool" where
  "wellFormed kind line \<longleftrightarrow>
     kind \<in> {[], ''hold'', ''arc'', ''timing'', ''camera''} \<and>
     (case match line (patternOf kind) of
        None \<Rightarrow> False
      | Some caps \<Rightarrow> numbersIn kind caps)"

definition unknownText :: string where
  "unknownText = ''AudioOffset:0\<newline>-\<newline>foo(1);\<newline>(1000,1);\<newline>''"

definition holdText :: string where
  "holdText = ''AudioOffset:0\<newline>-\<newline>hold(500,900,2);\<newline>(1000,1);\<newline>''"

section \<open>Distance covered\<close>

text \<open>
  The scroll distance a group has covered at chart time \<open>c\<close>, before the division by the
  base tempo and the scaling by the drop rate: whole intervals below the interval of \<open>c\<close>,
  and the part of that interval up to \<open>c\<close>. It is the quantity of which
  \<open>getPosByTimingWithStart\<close> returns differences.
\<close>

definition covered :: "TimingEvent list \<Rightarrow> int \<Rightarrow> rat" where
  "covered ts c =
     (let k = segmentOf ts c in
      (\<Sum>i = 0 ..< k. of_int (TimingEvent.time (ts ! (i + 1)) - TimingEvent.time (ts ! i)) * bpm (ts ! i))
      + of_int (c - TimingEvent.time (ts ! k)) * bpm (ts ! k))"

section \<open>Groups used as test inputs\<close>

text \<open>
  The group of the zero-tempo scenario, \<open>[timing(0,120,4), timing(1000,0,4),
  timing(2000,120,4)]\<close>, and the scroll distance it has covered at chart time \<open>c\<close>,
  per unit of drop rate, counted from chart time 0.
\<close>

definition stopGroup :: TimingGroup where
  "stopGroup = timingGroupOf [(0, 120), (1000, 0), (2000, 120)]"

definition stopPos :: "int \<Rightarrow> rat" where
  "stopPos c = of_int (if c \<ge> 2000 then c - 1000 else if c \<ge> 1000 then 1000 else c)"

text \<open>Four breakpoints of equal tempo, and a clock at 0 in a song of ten seconds.\<close>

definition evenGroup :: TimingGroup where
  "evenGroup = timingGroupOf [(0, 120), (1000, 120), (2000, 120), (3000, 120)]"

definition clockAtZero :: Gameplay where
  "clockAtZero = \<lparr>timing = 0, songLength = 10000, offset = 0, dropRate = 100\<rparr>"

section \<open>Tempo lookup at a breakpoint\<close>

lemma getTimingEvents_three:
  "getTimingEvents (timingGroupOf [(0, 120), (1000, 60), (2000, 240)]) =
     [\<lparr>TimingEvent.time = 0, bpm = 120, beatsPerLine = 4\<rparr>,
      \<lparr>TimingEvent.time = 1000, bpm = 60, beatsPerLine = 4\<rparr>,
      \<lparr>TimingEvent.time = 2000, bpm = 240, beatsPerLine = 4\<rparr>]"
  by (simp add: getTimingEvents_def timingGroupOf_def)

text \<open>
  C5. The claim: \<open>getBpmByTiming(t)\<close> returns the tempo of the interval
  \<open>[timings[i].time, timings[i+1].time)\<close> that contains \<open>t\<close>, so a \<open>t\<close> equal to an
  interior breakpoint's time yields that breakpoint's tempo. The source compares with
  \<open>timing > timings[i].time\<close>: at \<open>t = 1000\<close>, on the breakpoints 0, 1000, 2000 with
  tempi 120, 60, 240, no interval matches and the last tempo, 240, is returned instead of 60.
\<close>

theorem getBpmByTiming_at_breakpoint:
  "getBpmByTiming (timingGroupOf [(0, 120), (1000, 60), (2000, 240)]) 1000 = Inr 240"
  by (simp add: getBpmByTiming_def getTimingEvents_three upt_rec)


section \<open>Zero tempo freezes the position\<close>

lemma getTimingEvents_stopGroup:
  "getTimingEvents stopGroup =
     [\<lparr>TimingEvent.time = 0, bpm = 120, beatsPerLine = 4\<rparr>,
      \<lparr>TimingEvent.time = 1000, bpm = 0, beatsPerLine = 4\<rparr>,
      \<lparr>TimingEvent.time = 2000, bpm = 120, beatsPerLine = 4\<rparr>]"
  by (simp add: getTimingEvents_def timingGroupOf_def stopGroup_def)

lemma upt_0_2: "[0 ..< 2] = [0, Suc 0]"
  by (simp add: upt_rec)

lemma upt_1_2: "[Suc 0 ..< 2] = [Suc 0]"
  by (simp add: upt_rec)

lemma segmentOf_stopGroup:
  "segmentOf (getTimingEvents stopGroup) c = (if c \<ge> 2000 then 2 else if c \<ge> 1000 then 1 else 0)"
  by (simp add: segmentOf_def getTimingEvents_stopGroup upt_0_2)

lemma getBaseBpm_stopGroup: "getBaseBpm stopGroup = Inr 120"
  by (simp add: getBaseBpm_def getTimingEvents_stopGroup)

text \<open>On this group the position is a difference of covered distances, for every clock.\<close>

lemma getPos_stopGroup:
  "getPosByTimingWithStart gm stopGroup s t =
     Inr ((stopPos (t - Gameplay.offset gm) - stopPos (s - Gameplay.offset gm)) * dropRate gm)"
  unfolding getPosByTimingWithStart_def Let_def segmentOf_stopGroup getBaseBpm_stopGroup
  by (simp add: getTimingEvents_stopGroup posTerm_def stopPos_def upt_0_2 upt_1_2
        algebra_simps add_divide_distrib diff_divide_distrib)

text \<open>
  C3. On the group \<open>[timing(0,120,4), timing(1000,0,4), timing(2000,120,4)]\<close>, from any
  start \<open>s\<close>, with any drop rate, the position of time 1500 is the position of time 1000:
  the zero-tempo breakpoint adds nothing across its span. The routine subtracts the audio
  offset from both of its arguments before it looks at the breakpoints, so the two times are
  written \<open>1500 + offset\<close> and \<open>1000 + offset\<close>; with the offset 0 of the scenario they
  are 1500 and 1000.
\<close>

theorem zero_bpm_freeze:
  "\<exists>p. getPosByTimingWithStart gm stopGroup s (1500 + Gameplay.offset gm) = Inr p \<and>
       getPosByTimingWithStart gm stopGroup s (1000 + Gameplay.offset gm) = Inr p"
  by (simp add: getPos_stopGroup stopPos_def)

section \<open>The inverse search at a breakpoint\<close>

text \<open>
  C1. The claim: \<open>getTimingByPos(getPosByTimingWithStart(now, t), 0)\<close> is \<open>t\<close> within
  1 ms for every \<open>t\<close> reachable before the song ends. With breakpoints at 0, 1000, 2000
  and 3000, all of tempo 120, a clock at 0, a drop rate of 100 and a song of 10000 ms, the
  position of \<open>t = 2000\<close> is 200000, and the inverse search returns 10000 for it: the
  interval that ends at 2000 and the one that starts there are both tested with strict
  inequalities, so neither brackets a position that lies on their common border.
\<close>

theorem inverse_misses_breakpoint:
  "getPosByTimingWithStart clockAtZero evenGroup 0 2000 = Inr 200000 \<and>
   getTimingByPos clockAtZero evenGroup 200000 0 = Inr 10000"
  by (simp add: clockAtZero_def evenGroup_def) code_simp

section \<open>Range of the inverse search\<close>

lemma clampFloor_le: "clampFloor gm t \<le> songLength gm"
  by (simp add: clampFloor_def floor_le_iff)

text \<open>
  C4, as stated, fails: the result is not clamped below. With one breakpoint of tempo 120,
  a clock at 0 and a drop rate of 100, the position -100000 yields the time -1000.
\<close>

theorem getTimingByPos_negative:
  "getTimingByPos clockAtZero (timingGroupOf [(0, 120)]) (- 100000) 0 = Inr (- 1000)"
  by (simp add: clockAtZero_def) code_simp

text \<open>
  C4, amended. For every position and every depth, on a group with at least one timing
  event, a base tempo other than 0 and a drop rate other than 0, \<open>getTimingByPos\<close>
  returns an integer number of milliseconds that is at most the song length. There is no
  lower bound.
\<close>

theorem getTimingByPos_at_most_songLength:
  assumes "getTimingEvents g \<noteq> []" and "getBaseBpm g = Inr base" and "base \<noteq> 0"
    and "dropRate gm \<noteq> 0"
  shows "\<exists>r. getTimingByPos gm g pos depth = Inr r \<and> r \<le> songLength gm"
  using assms
  by (auto simp: getTimingByPos_def Let_def clampFloor_le
      split: if_splits sum.splits prod.splits option.splits)

theorem getTimingByPos_at_most_songLength_witness:
  "getTimingEvents stopGroup \<noteq> [] \<and> getBaseBpm stopGroup = Inr 120 \<and> (120 :: rat) \<noteq> 0 \<and>
   dropRate clockAtZero \<noteq> 0 \<and>
   (\<exists>r. getTimingByPos clockAtZero stopGroup 150000 1 = Inr r \<and> r \<le> songLength clockAtZero)"
proof -
  have a: "getTimingEvents stopGroup \<noteq> []"
    by (simp add: getTimingEvents_stopGroup)
  have b: "getBaseBpm stopGroup = Inr 120"
    by (rule getBaseBpm_stopGroup)
  have c: "(120 :: rat) \<noteq> 0"
    by simp
  have d: "dropRate clockAtZero \<noteq> 0"
    by (simp add: clockAtZero_def)
  from getTimingByPos_at_most_songLength [OF a b c d, of 150000 1] a b c d
  show ?thesis by blast
qed

section \<open>Position is monotonic under positive tempo\<close>

lemma find_upt_Some: "find P [0 ..< m] = Some i \<Longrightarrow> i < m \<and> P i"
  by (auto simp: find_Some_iff)

lemma find_upt_None: "find P [0 ..< m] = None \<Longrightarrow> i < m \<Longrightarrow> \<not> P i"
  by (auto simp: find_None_iff)

lemma between_breakpoints:
  "TimingEvent.time (ts ! 0) \<le> c \<Longrightarrow> c < TimingEvent.time (ts ! k) \<Longrightarrow>
     \<exists>i<k. TimingEvent.time (ts ! i) \<le> c \<and> c < TimingEvent.time (ts ! (i + 1))"
proof (induction k)
  case 0
  then show ?case by simp
next
  case (Suc k)
  show ?case
  proof (cases "c < TimingEvent.time (ts ! k)")
    case True
    with Suc obtain i where "i < k" "TimingEvent.time (ts ! i) \<le> c" "c < TimingEvent.time (ts ! (i + 1))"
      by blast
    then show ?thesis using less_Suc_eq by auto
  next
    case False
    with Suc.prems show ?thesis by (intro exI [of _ k]) simp
  qed
qed

lemma segmentOf_less: "ts \<noteq> [] \<Longrightarrow> segmentOf ts c < length ts"
  by (auto simp: segmentOf_def Let_def split: option.splits dest!: find_upt_Some)

lemma segmentOf_prev:
  "0 < segmentOf ts c \<Longrightarrow> TimingEvent.time (ts ! segmentOf ts c) \<le> c"
  by (auto simp: segmentOf_def Let_def split: option.splits if_splits dest!: find_upt_Some)

lemma sorted_times:
  "sorted (map TimingEvent.time ts) \<Longrightarrow> i \<le> j \<Longrightarrow> j < length ts \<Longrightarrow>
     TimingEvent.time (ts ! i) \<le> TimingEvent.time (ts ! j)"
  using sorted_nth_mono [of "map TimingEvent.time ts" i j] by simp

lemma segmentOf_next:
  assumes srt: "sorted (map TimingEvent.time ts)" and lt: "segmentOf ts c < length ts - 1"
  shows "c < TimingEvent.time (ts ! (segmentOf ts c + 1))"
proof -
  let ?P = "\<lambda>i. c \<ge> TimingEvent.time (ts ! i) \<and> c < TimingEvent.time (ts ! (i + 1))"
  from lt have ne: "ts \<noteq> []" by auto
  have nov: "\<not> c \<ge> TimingEvent.time (ts ! (length ts - 1))"
    using lt ne by (auto simp: segmentOf_def Let_def)
  show ?thesis
  proof (cases "find ?P [0 ..< length ts - 1]")
    case None
    then have seg0: "segmentOf ts c = 0"
      using nov by (simp add: segmentOf_def Let_def)
    have "c < TimingEvent.time (ts ! 0)"
    proof (rule ccontr)
      assume "\<not> c < TimingEvent.time (ts ! 0)"
      then have "TimingEvent.time (ts ! 0) \<le> c" by simp
      with between_breakpoints [of ts c "length ts - 1"] nov
      obtain i where "i < length ts - 1" "?P i" by auto
      with find_upt_None [OF None] show False by blast
    qed
    moreover have "TimingEvent.time (ts ! 0) \<le> TimingEvent.time (ts ! 1)"
      using sorted_times [OF srt, of 0 1] lt seg0 by simp
    ultimately show ?thesis using seg0 by simp
  next
    case (Some i)
    then have "segmentOf ts c = i"
      using nov by (simp add: segmentOf_def Let_def)
    with find_upt_Some [OF Some] show ?thesis by simp
  qed
qed

lemma segmentOf_mono:
  assumes srt: "sorted (map TimingEvent.time ts)" and ne: "ts \<noteq> []" and le: "c \<le> c'"
  shows "segmentOf ts c \<le> segmentOf ts c'"
proof (rule ccontr)
  assume "\<not> segmentOf ts c \<le> segmentOf ts c'"
  then have gt: "segmentOf ts c' < segmentOf ts c" by simp
  have a: "segmentOf ts c < length ts" by (rule segmentOf_less [OF ne])
  with gt have "segmentOf ts c' < length ts - 1" by simp
  then have 1: "c' < TimingEvent.time (ts ! (segmentOf ts c' + 1))"
    by (rule segmentOf_next [OF srt])
  from gt have "0 < segmentOf ts c" by simp
  then have 2: "TimingEvent.time (ts ! segmentOf ts c) \<le> c" by (rule segmentOf_prev)
  have "TimingEvent.time (ts ! (segmentOf ts c' + 1)) \<le> TimingEvent.time (ts ! segmentOf ts c)"
    using sorted_times [OF srt, of "segmentOf ts c' + 1" "segmentOf ts c"] gt a by simp
  with 1 2 le show False by simp
qed


lemma covered_diff_same:
  "segmentOf ts c = segmentOf ts c' \<Longrightarrow>
     covered ts c' - covered ts c = of_int (c' - c) * bpm (ts ! segmentOf ts c)"
  by (simp add: covered_def Let_def algebra_simps)

lemma covered_diff_across:
  assumes lt: "segmentOf ts c < segmentOf ts c'"
  shows "covered ts c' - covered ts c =
           of_int (TimingEvent.time (ts ! (segmentOf ts c + 1)) - c) * bpm (ts ! segmentOf ts c)
           + (\<Sum>i = Suc (segmentOf ts c) ..< segmentOf ts c'.
                of_int (TimingEvent.time (ts ! (i + 1)) - TimingEvent.time (ts ! i)) * bpm (ts ! i))
           + of_int (c' - TimingEvent.time (ts ! segmentOf ts c')) * bpm (ts ! segmentOf ts c')"
proof -
  define a where "a = segmentOf ts c"
  define b where "b = segmentOf ts c'"
  define w where
    "w = (\<lambda>i. of_int (TimingEvent.time (ts ! (i + 1)) - TimingEvent.time (ts ! i)) * bpm (ts ! i))"
  from lt have ab: "a < b" by (simp add: a_def b_def)
  have "sum w {0 ..< b} = sum w {0 ..< a} + sum w {a ..< b}"
    using ab by (simp add: sum.atLeastLessThan_concat)
  also have "sum w {a ..< b} = w a + sum w {Suc a ..< b}"
    using ab by (simp add: sum.atLeast_Suc_lessThan)
  finally have split: "sum w {0 ..< b} = sum w {0 ..< a} + (w a + sum w {Suc a ..< b})" .
  have "covered ts c' - covered ts c =
          (sum w {0 ..< b} + of_int (c' - TimingEvent.time (ts ! b)) * bpm (ts ! b))
          - (sum w {0 ..< a} + of_int (c - TimingEvent.time (ts ! a)) * bpm (ts ! a))"
    by (simp add: covered_def Let_def a_def b_def w_def)
  also have "\<dots> = of_int (TimingEvent.time (ts ! (a + 1)) - c) * bpm (ts ! a)
                  + sum w {Suc a ..< b}
                  + of_int (c' - TimingEvent.time (ts ! b)) * bpm (ts ! b)"
    unfolding split by (simp add: w_def algebra_simps)
  finally show ?thesis by (simp add: a_def b_def w_def)
qed

lemma posTerm_sum:
  assumes ab: "a < b" and base: "base \<noteq> 0"
  shows "sum_list (map (posTerm ts base dr current target a b) [a ..< b + 1]) =
           (of_int (TimingEvent.time (ts ! (a + 1)) - current) * bpm (ts ! a)
            + (\<Sum>i = Suc a ..< b.
                 of_int (TimingEvent.time (ts ! (i + 1)) - TimingEvent.time (ts ! i)) * bpm (ts ! i))
            + of_int (target - TimingEvent.time (ts ! b)) * bpm (ts ! b)) / base * dr"
proof -
  define f where "f = posTerm ts base dr current target a b"
  define w where
    "w = (\<lambda>i. of_int (TimingEvent.time (ts ! (i + 1)) - TimingEvent.time (ts ! i)) * bpm (ts ! i))"
  have "sum_list (map f [a ..< b + 1]) = sum f {a ..< Suc b}"
    by (simp add: interv_sum_list_conv_sum_set_nat del: upt_Suc)
  also have "\<dots> = f a + sum f {Suc a ..< Suc b}"
    using ab by (simp add: sum.atLeast_Suc_lessThan)
  also have "sum f {Suc a ..< Suc b} = sum f {Suc a ..< b} + f b"
    using ab by simp
  also have "sum f {Suc a ..< b} = sum (\<lambda>i. w i / base * dr) {Suc a ..< b}"
    by (rule sum.cong) (auto simp: f_def w_def posTerm_def)
  also have "\<dots> = sum w {Suc a ..< b} / base * dr"
    by (simp add: sum_divide_distrib sum_distrib_right)
  finally have "sum_list (map f [a ..< b + 1]) = f a + (sum w {Suc a ..< b} / base * dr + f b)" .
  moreover have "f a = of_int (TimingEvent.time (ts ! (a + 1)) - current) * bpm (ts ! a) / base * dr"
    by (simp add: f_def posTerm_def)
  moreover have "f b = of_int (target - TimingEvent.time (ts ! b)) * bpm (ts ! b) / base * dr"
    using ab by (simp add: f_def posTerm_def)
  ultimately show ?thesis
    by (simp add: f_def w_def add_divide_distrib distrib_right)
qed

lemma covered_strict_mono:
  assumes srt: "sorted (map TimingEvent.time ts)" and ne: "ts \<noteq> []"
    and pos: "\<forall>e \<in> set ts. 0 < bpm e" and lt: "c < c'"
  shows "covered ts c < covered ts c'"
proof -
  define a where "a = segmentOf ts c"
  define b where "b = segmentOf ts c'"
  have ab: "a \<le> b"
    unfolding a_def b_def using segmentOf_mono [OF srt ne, of c c'] lt by simp
  have bn: "b < length ts" unfolding b_def by (rule segmentOf_less [OF ne])
  have bpos: "0 < bpm (ts ! i)" if "i < length ts" for i
    using pos that nth_mem by blast
  show ?thesis
  proof (cases "a = b")
    case True
    then have "covered ts c' - covered ts c = of_int (c' - c) * bpm (ts ! a)"
      using covered_diff_same [of ts c c'] by (simp add: a_def b_def)
    moreover have "0 < of_int (c' - c) * bpm (ts ! a)"
      using lt bpos [of a] ab bn by simp
    ultimately show ?thesis by simp
  next
    case False
    with ab have less: "a < b" by simp
    have d: "covered ts c' - covered ts c =
           of_int (TimingEvent.time (ts ! (a + 1)) - c) * bpm (ts ! a)
           + (\<Sum>i = Suc a ..< b.
                of_int (TimingEvent.time (ts ! (i + 1)) - TimingEvent.time (ts ! i)) * bpm (ts ! i))
           + of_int (c' - TimingEvent.time (ts ! b)) * bpm (ts ! b)"
      using covered_diff_across [of ts c c'] less by (simp add: a_def b_def)
    have "c < TimingEvent.time (ts ! (a + 1))"
      unfolding a_def using segmentOf_next [OF srt, of c] less bn by (simp add: a_def)
    then have h: "0 < of_int (TimingEvent.time (ts ! (a + 1)) - c) * bpm (ts ! a)"
      using bpos [of a] less bn by simp
    have m: "0 \<le> (\<Sum>i = Suc a ..< b.
                of_int (TimingEvent.time (ts ! (i + 1)) - TimingEvent.time (ts ! i)) * bpm (ts ! i))"
    proof (rule sum_nonneg)
      fix i assume "i \<in> {Suc a ..< b}"
      then have i: "i + 1 < length ts" using bn by simp
      then have "TimingEvent.time (ts ! i) \<le> TimingEvent.time (ts ! (i + 1))"
        using sorted_times [OF srt, of i "i + 1"] by simp
      moreover have "0 < bpm (ts ! i)" using bpos [of i] i by simp
      ultimately show "0 \<le> of_int (TimingEvent.time (ts ! (i + 1)) - TimingEvent.time (ts ! i)) * bpm (ts ! i)"
        by simp
    qed
    have "TimingEvent.time (ts ! b) \<le> c'"
      unfolding b_def using segmentOf_prev [of ts c'] less by (simp add: b_def)
    then have t: "0 \<le> of_int (c' - TimingEvent.time (ts ! b)) * bpm (ts ! b)"
      using bpos [OF bn] by simp
    from d h m t show ?thesis by linarith
  qed
qed

text \<open>For \<open>current \<le> target\<close> the accumulated position is a difference of covered distances.\<close>

lemma pos_eq_covered:
  assumes srt: "sorted (map TimingEvent.time ts)" and ne: "ts \<noteq> []" and base: "base \<noteq> 0"
    and le: "current \<le> target"
  shows "(if segmentOf ts current = segmentOf ts target then
            of_int (target - current) * bpm (ts ! segmentOf ts current) / base * dr
          else
            sum_list (map (posTerm ts base dr current target (segmentOf ts current) (segmentOf ts target))
                          [segmentOf ts current ..< segmentOf ts target + 1]))
         = (covered ts target - covered ts current) / base * dr"
proof (cases "segmentOf ts current = segmentOf ts target")
  case True
  then show ?thesis
    using covered_diff_same [of ts current target] by simp
next
  case False
  with segmentOf_mono [OF srt ne le] have less: "segmentOf ts current < segmentOf ts target"
    by simp
  show ?thesis
    using False posTerm_sum [OF less base, of ts dr current target]
      covered_diff_across [OF less] by simp
qed


lemma sorted_getTimingEvents: "sorted (map TimingEvent.time (getTimingEvents g))"
  by (simp add: getTimingEvents_def)

lemma getPos_eq_covered:
  assumes ne: "getTimingEvents g \<noteq> []" and bb: "getBaseBpm g = Inr base" and base: "base \<noteq> 0"
  shows "getPosByTimingWithStart gm g s t =
           Inr ((covered (getTimingEvents g) (t - Gameplay.offset gm)
                 - covered (getTimingEvents g) (s - Gameplay.offset gm)) / base * dropRate gm)"
proof (cases "s > t")
  case True
  then have le: "t - Gameplay.offset gm \<le> s - Gameplay.offset gm" by simp
  show ?thesis
    using True bb base pos_eq_covered [OF sorted_getTimingEvents ne base le, of "dropRate gm"]
    by (simp add: getPosByTimingWithStart_def Let_def algebra_simps diff_divide_distrib
        del: upt_Suc)
next
  case False
  then have le: "s - Gameplay.offset gm \<le> t - Gameplay.offset gm" by simp
  show ?thesis
    using False bb base pos_eq_covered [OF sorted_getTimingEvents ne base le, of "dropRate gm"]
    by (simp add: getPosByTimingWithStart_def Let_def del: upt_Suc)
qed

text \<open>
  C2. In a group with at least one timing event, all of strictly positive tempo, and with a
  positive drop rate, the position is strictly increasing in the target time, from every start
  \<open>s\<close>: \<open>t1 < t2\<close> gives
  \<open>getPosByTimingWithStart(s, t1) < getPosByTimingWithStart(s, t2)\<close>, and both calls
  return. The drop rate of the source is 100 at construction, is kept between 1 and 200 by
  the settings panel, and is otherwise only divided by 1.15.
\<close>

theorem position_strictly_increasing:
  assumes ne: "getTimingEvents g \<noteq> []"
    and pos: "\<forall>e \<in> set (getTimingEvents g). 0 < bpm e"
    and dr: "0 < dropRate gm"
    and lt: "t1 < t2"
  shows "\<exists>p1 p2. getPosByTimingWithStart gm g s t1 = Inr p1 \<and>
                 getPosByTimingWithStart gm g s t2 = Inr p2 \<and> p1 < p2"
proof -
  from ne obtain e es where ts: "getTimingEvents g = e # es" by (cases "getTimingEvents g") auto
  then have bb: "getBaseBpm g = Inr (bpm e)" by (simp add: getBaseBpm_def)
  have base: "0 < bpm e" using pos ts by simp
  then have base0: "bpm e \<noteq> 0" by simp
  have "covered (getTimingEvents g) (t1 - Gameplay.offset gm) < covered (getTimingEvents g) (t2 - Gameplay.offset gm)"
    using covered_strict_mono [OF sorted_getTimingEvents ne pos] lt by simp
  then have "(covered (getTimingEvents g) (t1 - Gameplay.offset gm)
                - covered (getTimingEvents g) (s - Gameplay.offset gm)) / bpm e * dropRate gm
             < (covered (getTimingEvents g) (t2 - Gameplay.offset gm)
                - covered (getTimingEvents g) (s - Gameplay.offset gm)) / bpm e * dropRate gm"
    using base dr by (simp add: divide_strict_right_mono)
  then show ?thesis
    by (simp add: getPos_eq_covered [OF ne bb base0])
qed

lemma getTimingEvents_evenGroup:
  "getTimingEvents evenGroup =
     [\<lparr>TimingEvent.time = 0, bpm = 120, beatsPerLine = 4\<rparr>,
      \<lparr>TimingEvent.time = 1000, bpm = 120, beatsPerLine = 4\<rparr>,
      \<lparr>TimingEvent.time = 2000, bpm = 120, beatsPerLine = 4\<rparr>,
      \<lparr>TimingEvent.time = 3000, bpm = 120, beatsPerLine = 4\<rparr>]"
  by (simp add: getTimingEvents_def timingGroupOf_def evenGroup_def)

theorem position_strictly_increasing_witness:
  "getTimingEvents evenGroup \<noteq> [] \<and> 0 < dropRate clockAtZero \<and> (500 :: int) < 2500 \<and>
   (\<exists>p1 p2. getPosByTimingWithStart clockAtZero evenGroup 700 500 = Inr p1 \<and>
            getPosByTimingWithStart clockAtZero evenGroup 700 2500 = Inr p2 \<and> p1 < p2)"
proof -
  have a: "getTimingEvents evenGroup \<noteq> []"
    by (simp add: getTimingEvents_evenGroup)
  have b: "\<forall>e \<in> set (getTimingEvents evenGroup). 0 < bpm e"
    by (simp add: getTimingEvents_evenGroup)
  have c: "0 < dropRate clockAtZero"
    by (simp add: clockAtZero_def)
  have d: "(500 :: int) < 2500"
    by simp
  from position_strictly_increasing [OF a b c d, of 700] a c d
  show ?thesis by blast
qed


section \<open>Rounding to the nearest double\<close>

text \<open>
  The binary exponent brackets its argument between two powers of two. Rounding keeps the
  order of numbers, sends a non-negative number to a non-negative double, moves a number by
  at most half the distance between neighbouring doubles, and leaves the integers up to
  \<open>2^53\<close> in magnitude as they are.
\<close>

lemma roundHalfEven_of_int: "roundHalfEven (of_int k) = k"
  by (simp add: roundHalfEven_def)



lemma bitlen_pos: "0 < p \<Longrightarrow> 1 \<le> bitlen p"
  using bitlen_eq_zero_iff [of p] bitlen_nonneg [of p] by linarith

lemma bitlen_rat_bounds:
  assumes "0 < p"
  shows "(2 :: rat) powi (bitlen p - 1) \<le> of_int p" and "of_int p < (2 :: rat) powi bitlen p"
proof -
  from bitlen_pos [OF assms] have b: "1 \<le> bitlen p" .
  from bitlen_bounds [OF assms] have lo: "2 ^ nat (bitlen p - 1) \<le> p" and hi: "p < 2 ^ nat (bitlen p)"
    by auto
  have "(of_int (2 ^ nat (bitlen p - 1)) :: rat) \<le> of_int p"
    using lo by (simp only: of_int_le_iff)
  then show "(2 :: rat) powi (bitlen p - 1) \<le> of_int p"
    using b by (simp add: power_int_def)
  have "(of_int p :: rat) < of_int (2 ^ nat (bitlen p))"
    using hi by (simp only: of_int_less_iff)
  then show "of_int p < (2 :: rat) powi bitlen p"
    using b by (simp add: power_int_def)
qed

lemma binaryExponent_bounds:
  assumes "0 < a"
  shows "2 powi binaryExponent a \<le> a" and "a < 2 powi (binaryExponent a + 1)"
proof -
  define p where "p = fst (quotient_of a)"
  define d where "d = snd (quotient_of a)"
  define e0 where "e0 = bitlen p - bitlen d"
  have d: "0 < d" by (simp add: d_def quotient_of_denom_pos')
  have a: "a = of_int p / of_int d" by (rule quotient_of_div) (simp add: p_def d_def)
  have p: "0 < p" using assms d a by (simp add: zero_less_divide_iff)
  note bp = bitlen_rat_bounds [OF p] and bd = bitlen_rat_bounds [OF d]
  have dpos: "(0 :: rat) < of_int d" using d by simp
  have "a < 2 powi bitlen p / 2 powi (bitlen d - 1)"
    unfolding a using bp(2) bd(1) dpos p
    by (intro frac_less) (simp_all)
  also have "\<dots> = 2 powi (e0 + 1)"
    by (simp add: e0_def power_int_diff [symmetric] algebra_simps)
  finally have hi: "a < 2 powi (e0 + 1)" .
  have "2 powi (bitlen p - 1) / 2 powi bitlen d < a"
    unfolding a using bp(1) bd(2) dpos p
    by (intro frac_less2) (simp_all)
  moreover have "2 powi (bitlen p - 1) / (2 :: rat) powi bitlen d = 2 powi (e0 - 1)"
    by (simp add: e0_def power_int_diff [symmetric] algebra_simps)
  ultimately have lo: "2 powi (e0 - 1) < a" by simp
  have be: "binaryExponent a = (if 2 powi e0 \<le> a then e0 else e0 - 1)"
    by (simp add: binaryExponent_def Let_def e0_def p_def d_def)
  show "2 powi binaryExponent a \<le> a" using lo by (simp add: be)
  show "a < 2 powi (binaryExponent a + 1)" using hi by (simp add: be)
qed



lemma ulp_pos: "0 < ulp a"
  by (simp add: ulp_def)

lemma fl_positive: "0 < q \<Longrightarrow> fl q = of_int (roundHalfEven (q / ulp q)) * ulp q"
  by (simp add: fl_def)

lemma fl_minus: "fl (- q) = - fl q"
  by (simp add: fl_def)








lemma roundHalfEven_nearest: "\<bar>of_int (roundHalfEven m) - m\<bar> \<le> 1 / 2"
proof -
  have "of_int \<lfloor>m\<rfloor> \<le> m" "m < of_int \<lfloor>m\<rfloor> + 1" by linarith+
  then show ?thesis by (auto simp: roundHalfEven_def Let_def abs_le_iff)
qed

lemma fl_nearest: "\<bar>fl q - q\<bar> \<le> ulp \<bar>q\<bar> / 2"
proof -
  have pos: "\<bar>fl a - a\<bar> \<le> ulp a / 2" if a: "0 < a" for a
  proof -
    have u: "0 < ulp a" by (rule ulp_pos)
    have "fl a - a = (of_int (roundHalfEven (a / ulp a)) - a / ulp a) * ulp a"
      using u by (simp add: fl_positive [OF a] algebra_simps)
    then have "\<bar>fl a - a\<bar> = \<bar>of_int (roundHalfEven (a / ulp a)) - a / ulp a\<bar> * ulp a"
      using u by (simp add: abs_mult)
    also have "\<dots> \<le> 1 / 2 * ulp a"
      using u by (intro mult_right_mono roundHalfEven_nearest) simp
    finally show ?thesis by simp
  qed
  consider "q = 0" | "0 < q" | "q < 0" by linarith
  then show ?thesis
  proof cases
    case 1
    then show ?thesis using ulp_pos [of 0] by (simp add: fl_def)
  next
    case 2
    with pos [OF 2] show ?thesis by simp
  next
    case 3
    then have "0 < - q" by simp
    from pos [OF this] 3 show ?thesis by (simp add: fl_minus abs_minus_commute)
  qed
qed

lemma two_powi_less_imp: "(2 :: rat) powi m < 2 powi n \<Longrightarrow> m < n"
  by (metis not_less power_int_increasing one_le_numeral)

lemma fl_of_int_positive:
  assumes n: "0 < n" "n \<le> 2 ^ 53"
  shows "fl (of_int n) = of_int n"
proof -
  define a :: rat where "a = of_int n"
  define e where "e = binaryExponent a"
  have a0: "0 < a" using n(1) by (simp add: a_def)
  have "(of_int 1 :: rat) \<le> of_int n" using n(1) by simp
  then have a1: "2 powi 0 \<le> a" by (simp add: a_def)
  have "(of_int n :: rat) \<le> of_int (2 ^ 53)" using n(2) by (simp only: of_int_le_iff)
  moreover have "(of_int (2 ^ 53) :: rat) = 2 powi 53" by simp
  ultimately have a53: "a \<le> 2 powi 53" by (simp only: a_def)
  note b = binaryExponent_bounds [OF a0, folded e_def]
  have "(2 :: rat) powi 0 < 2 powi (e + 1)" using b(2) a1 by (rule le_less_trans [rotated])
  then have e0: "0 \<le> e" using two_powi_less_imp [of 0 "e + 1"] by simp
  have "(2 :: rat) powi 53 < 2 powi 54" by (rule power_int_strict_increasing) simp_all
  with b(1) a53 have "(2 :: rat) powi e < 2 powi 54" by linarith
  then have e53: "e \<le> 53" using two_powi_less_imp [of e 54] by simp
  have u: "ulp a = 2 powi (e - 52)" using e0 by (simp add: ulp_def e_def max_def)
  have inv: "ulp a * 2 powi (52 - e) = 1"
  proof -
    have "(2 :: rat) powi (e - 52) * 2 powi (52 - e) = 2 powi ((e - 52) + (52 - e))"
      by (rule power_int_add [symmetric]) simp
    then show ?thesis by (simp add: u)
  qed
  have up: "0 < ulp a" by (rule ulp_pos)
  have quot: "a / ulp a = a * 2 powi (52 - e)"
  proof -
    have "a / ulp a = a * (ulp a * 2 powi (52 - e)) / ulp a" by (simp only: inv mult_1_right)
    also have "\<dots> = a * 2 powi (52 - e)" using up by simp
    finally show ?thesis .
  qed
  have "\<exists>j. a / ulp a = of_int j"
  proof (cases "e \<le> 52")
    case True
    then have "(2 :: rat) powi (52 - e) = of_int (2 ^ nat (52 - e))"
      by (simp add: power_int_def)
    with quot have "a / ulp a = a * of_int (2 ^ nat (52 - e))" by (simp only:)
    then have "a / ulp a = of_int (n * 2 ^ nat (52 - e))"
      by (simp only: a_def of_int_mult)
    then show ?thesis ..
  next
    case False
    with e53 have e: "e = 53" by simp
    from b(1) a53 have "a = 2 powi 53" unfolding e by (rule antisym [rotated])
    moreover have "(2 :: rat) powi 53 * 2 powi (- 1) = 2 powi (53 + (- 1))"
      by (rule power_int_add [symmetric]) simp
    ultimately have "a / ulp a = 2 powi 52" unfolding quot e by simp
    moreover have "(2 :: rat) powi 52 = of_int (2 ^ 52)" by simp
    ultimately show ?thesis by (intro exI [of _ "2 ^ 52"]) (simp only:)
  qed
  then obtain j where j: "a / ulp a = of_int j" ..
  have "fl a = of_int (roundHalfEven (a / ulp a)) * ulp a" by (rule fl_positive [OF a0])
  also have "\<dots> = a / ulp a * ulp a" by (simp only: j roundHalfEven_of_int)
  also have "\<dots> = a" using up by simp
  finally show ?thesis by (simp only: a_def)
qed

lemma fl_of_int:
  assumes "\<bar>k\<bar> \<le> 2 ^ 53"
  shows "fl (of_int k) = of_int k"
proof -
  consider "k = 0" | "0 < k" | "k < 0" by linarith
  then show ?thesis
  proof cases
    case 1
    then show ?thesis by (simp add: fl_def)
  next
    case 2
    with assms have "k \<le> 2 ^ 53" by simp
    with 2 show ?thesis by (rule fl_of_int_positive)
  next
    case 3
    with assms have "0 < - k" "- k \<le> 2 ^ 53" by simp_all
    then have "fl (of_int (- k)) = of_int (- k)" by (rule fl_of_int_positive)
    then show ?thesis by (simp add: fl_minus)
  qed
qed

section \<open>Judge timings\<close>

lemma isFinite_iff: "isFinite q \<longleftrightarrow> \<bar>q\<bar> < 2 ^ 1024"
proof (cases "q = 0")
  case True
  then show ?thesis by (simp add: isFinite_def)
next
  case False
  then have a: "0 < \<bar>q\<bar>" by simp
  note b = binaryExponent_bounds [OF a]
  have p: "(2 :: rat) ^ 1024 = 2 powi 1024" by simp
  show ?thesis
  proof
    assume "isFinite q"
    with False have "binaryExponent \<bar>q\<bar> + 1 \<le> 1024" by (simp add: isFinite_def)
    then have "(2 :: rat) powi (binaryExponent \<bar>q\<bar> + 1) \<le> 2 powi 1024"
      by (intro power_int_increasing) simp_all
    with b(2) show "\<bar>q\<bar> < 2 ^ 1024" unfolding p by linarith
  next
    assume "\<bar>q\<bar> < 2 ^ 1024"
    with b(1) have "(2 :: rat) powi binaryExponent \<bar>q\<bar> < 2 powi 1024" unfolding p by linarith
    then have "binaryExponent \<bar>q\<bar> < 1024"
      by (metis not_less power_int_increasing one_le_numeral)
    then show "isFinite q" by (simp add: isFinite_def)
  qed
qed

lemma judgeLoop_returns_less:
  assumes "judgeLoop t0 t1 interval total' n acc = Some r"
  shows "n < total'"
proof (rule judgeLoop.raw_induct [where P = "\<lambda>t0 t1 interval total' n acc r. n < total'", OF _ assms])
  fix loop :: "int \<Rightarrow> int \<Rightarrow> rat \<Rightarrow> int \<Rightarrow> int \<Rightarrow> int list \<Rightarrow> int list option"
    and t0 t1 interval total' n acc r
  assume ih: "\<And>t0 t1 interval total' n acc r. loop t0 t1 interval total' n acc = Some r \<Longrightarrow> n < total'"
    and eq: "(let t = judgeInstant t0 interval n;
                  pushed = (if t < t1 then acc @ [t] else acc)
              in if total' = n + 1 then Some pushed
                 else loop t0 t1 interval total' (n + 1) pushed) = Some r"
  show "n < total'"
  proof (cases "total' = n + 1")
    case True
    then show ?thesis by simp
  next
    case False
    with eq obtain acc' where "loop t0 t1 interval total' (n + 1) acc' = Some r"
      by (auto simp: Let_def split: if_splits)
    from ih [OF this] show ?thesis by simp
  qed
qed

lemma judgeLoop_diverges: "total' \<le> n \<Longrightarrow> judgeLoop t0 t1 interval total' n acc = None"
  using judgeLoop_returns_less [of t0 t1 interval total' n acc] by (cases "judgeLoop t0 t1 interval total' n acc") auto

lemma judgeLoop_value:
  "n < total' \<Longrightarrow>
     judgeLoop t0 t1 interval total' n acc =
       Some (acc @ filter (\<lambda>t. t < t1) (map (judgeInstant t0 interval) [n .. total' - 1]))"
proof (induction "nat (total' - n)" arbitrary: n acc)
  case 0
  then show ?case by simp
next
  case (Suc d)
  show ?case
  proof (cases "total' = n + 1")
    case True
    then show ?thesis
      by (subst judgeLoop.simps) (simp add: Let_def)
  next
    case False
    with Suc.prems have lt: "n + 1 < total'" by simp
    have d: "d = nat (total' - (n + 1))" using Suc.hyps(2) by simp
    have up: "[n .. total' - 1] = n # [n + 1 .. total' - 1]"
      using lt by (simp add: upto_rec1)
    show ?thesis
      by (subst judgeLoop.simps) (simp add: Let_def False Suc.hyps(1) [OF d lt] up)
  qed
qed

lemma judgeLoop_instants:
  "n < total' \<Longrightarrow> judgeLoop t0 t1 interval total' n [] = Some (judgeInstants t0 t1 interval n total')"
  by (simp add: judgeLoop_value judgeInstants_def)

lemma getBpm_single: "getBpmByTiming (timingGroupOf [(t, b)]) q = Inr b"
  by (simp add: getBpmByTiming_def getTimingEvents_def timingGroupOf_def)





lemma getBpm_activeAt:
  assumes "activeAt g t i"
  shows "getBpmByTiming g t = Inr (bpm (getTimingEvents g ! i))"
proof -
  define ts where "ts = getTimingEvents g"
  let ?P = "\<lambda>j. t > TimingEvent.time (ts ! j) \<and> t < TimingEvent.time (ts ! (j + 1))"
  have srt: "sorted (map TimingEvent.time ts)"
    unfolding ts_def by (rule sorted_getTimingEvents)
  from assms [unfolded activeAt_def Let_def, folded ts_def] have i: "i < length ts"
    and act: "if i + 1 < length ts
              then TimingEvent.time (ts ! i) < t \<and> t < TimingEvent.time (ts ! (i + 1))
              else TimingEvent.time (ts ! i) \<le> t"
    by blast+
  have eq: "getBpmByTiming g t =
              (case find ?P [0 ..< length ts - 1] of
                 Some j \<Rightarrow> Inr (bpm (ts ! j))
               | None \<Rightarrow> if ts = [] then Inl TypeError else Inr (bpm (ts ! (length ts - 1))))"
    unfolding getBpmByTiming_def Let_def ts_def ..
  have "getBpmByTiming g t = Inr (bpm (ts ! i))"
  proof (cases "i + 1 < length ts")
    case True
    with act have Pi: "?P i" by simp
    have "find ?P [0 ..< length ts - 1] \<noteq> None"
    proof
      assume "find ?P [0 ..< length ts - 1] = None"
      from find_upt_None [OF this, of i] True Pi show False by simp
    qed
    then obtain j where j: "find ?P [0 ..< length ts - 1] = Some j" by auto
    from find_upt_Some [OF j] have jl: "j < length ts - 1" and Pj: "?P j" by simp_all
    have "j = i"
    proof (rule ccontr)
      assume "j \<noteq> i"
      then consider "j < i" | "i < j" by linarith
      then show False
      proof cases
        case 1
        then have "TimingEvent.time (ts ! (j + 1)) \<le> TimingEvent.time (ts ! i)"
          using i by (intro sorted_times [OF srt]) simp_all
        with Pi Pj show False by simp
      next
        case 2
        then have "TimingEvent.time (ts ! (i + 1)) \<le> TimingEvent.time (ts ! j)"
          using jl by (intro sorted_times [OF srt]) simp_all
        with Pi Pj show False by simp
      qed
    qed
    then show ?thesis unfolding eq j by simp
  next
    case False
    with i have last: "i = length ts - 1" and ne: "ts \<noteq> []" by auto
    from act False have le: "TimingEvent.time (ts ! i) \<le> t" by simp
    have "find ?P [0 ..< length ts - 1] = None"
    proof (cases "find ?P [0 ..< length ts - 1]")
      case None
      then show ?thesis .
    next
      case (Some j)
      from find_upt_Some [OF Some] have jl: "j < length ts - 1" and Pj: "?P j" by simp_all
      have "TimingEvent.time (ts ! (j + 1)) \<le> TimingEvent.time (ts ! i)"
        using jl i last by (intro sorted_times [OF srt]) simp_all
      with le Pj show ?thesis by simp
    qed
    then show ?thesis unfolding eq using ne last by simp
  qed
  then show ?thesis unfolding ts_def .
qed

lemma judgeInterval_120: "judgeInterval 120 = Some 250"
  by code_simp

lemma judgeInterval_300: "judgeInterval 300 = Some 200"
  by code_simp

lemma fdiv_300_250: "fdiv 300 250 = Some (5404319552844595 / 4503599627370496)"
  by code_simp

text \<open>
  Where the judge interval is no double, the rounding shows in the result. At tempo 84 the
  interval is the double next above \<open>2500 / 7\<close>, so an arc from 0 to 2500 has
  \<open>total = 6\<close>, not 7, and five instants with a rendered head. At tempo 112 seven
  intervals are a double just below 1875, so the last instant of a hold from 0 to 2143 is
  1874.
\<close>

lemma arc_total_rounded:
  "Arc_calculateJudgeTimings (timingGroupOf [(0, 84)]) (arcAt 0 2500 True) =
     Some (Inr [357, 714, 1071, 1428, 1785])"
  by code_simp

lemma hold_instant_rounded:
  "HoldNote_calculateJudgeTimings (timingGroupOf [(0, 112)]) (holdAt 0 2143) =
     Some (Inr [267, 535, 803, 1071, 1339, 1607, 1874])"
  by code_simp


text \<open>
  With \<open>total = 1\<close> the test \<open>u ^ 1 > total\<close> is false, the loop starts at
  \<open>n = 1\<close>, and the incremented \<open>n\<close> is never 1: at tempo 120 a hold from 0 to 300
  (interval 250, \<open>total = 1\<close>) never returns. The arc's routine tests
  \<open>(u ^ 1) >= total\<close> and does return the midpoint there.
\<close>

theorem hold_total_one_never_returns:
  "HoldNote_calculateJudgeTimings (timingGroupOf [(0, 120)]) (holdAt 0 300) = None"
  by (simp add: HoldNote_calculateJudgeTimings_def getBpm_single holdAt_def judgeInterval_120
      fdiv_300_250 judgeLoop_diverges floor_eq_iff)



text \<open>
  C7, as stated, fails. At tempo 120 an arc from 0 to 1000 whose head is rendered gets the
  instants 250, 500, 750: the enumeration starts at \<open>n = u ^ 1 = 1\<close>. The claim's
  enumeration starts at 0 for a rendered head and gives 0, 250, 500, 750. The interval is 250
  and nothing is rounded.
\<close>

theorem arc_head_starts_at_one:
  "Arc_calculateJudgeTimings (timingGroupOf [(0, 120)]) (arcAt 0 1000 True) = Some (Inr [250, 500, 750])
   \<and> claimedArcJudgeTimings (arcAt 0 1000 True) 120 = [0, 250, 500, 750]"
  by code_simp

text \<open>
  C7, amended. Take a non-void arc with \<open>endTime > time\<close> whose \<open>time\<close> lies strictly
  between two breakpoints, or at or after the last one, and let the tempo \<open>b\<close> in force
  there be positive. The judge interval is the double \<open>60000 / b / (b >= 255 ? 1 : 2)\<close>,
  which is 250 at tempo 120 and 200 at tempo 300. Let it be finite, and \<open>q\<close>, the double
  \<open>(endTime - time) / interval\<close>, too. With \<open>first = 1\<close> when the head is rendered and
  \<open>first = 0\<close> when it is suppressed, and \<open>total = floor(q)\<close>: if \<open>first \<ge> total\<close>
  the only instant is the midpoint \<open>floor(time + (endTime - time) * 0.5)\<close>; otherwise the
  instants are the floored \<open>time + n * interval\<close> for \<open>n\<close> from \<open>first\<close> to
  \<open>total - 1\<close>, each product and sum rounded to a double before the floor, those at or
  after \<open>endTime\<close> discarded.
\<close>

theorem arc_judgeTimings:
  assumes nv: "\<not> isVoid a" and lt: "Arc.time a < Arc.endTime a"
    and act: "activeAt g (Arc.time a) i"
    and pos: "0 < bpm (getTimingEvents g ! i)"
    and iv: "judgeInterval (bpm (getTimingEvents g ! i)) = Some interval"
    and tot: "fdiv (of_int (Arc.endTime a - Arc.time a)) interval = Some q"
  shows "Arc_calculateJudgeTimings g a =
           Some (Inr (let first = (if renderHead a then 1 else 0); total' = \<lfloor>q\<rfloor>
                      in if first \<ge> total' then [midpointInstant (Arc.time a) (Arc.endTime a)]
                         else judgeInstants (Arc.time a) (Arc.endTime a) interval first total'))
         \<and> judgeInterval 120 = Some 250 \<and> judgeInterval 300 = Some 200"
  using nv lt pos
  by (simp add: Arc_calculateJudgeTimings_def Let_def getBpm_activeAt [OF act] iv tot
      judgeLoop_instants judgeInterval_120 judgeInterval_300 del: of_int_diff)

theorem arc_judgeTimings_witness:
  "Arc_calculateJudgeTimings tempoGroup (arcAt 5500 8000 True) =
     Some (Inr [5857, 6214, 6571, 6928, 7285])
   \<and> Arc_calculateJudgeTimings tempoGroup (arcAt 5500 8000 False) =
     Some (Inr [5500, 5857, 6214, 6571, 6928, 7285])"
proof -
  let ?interval = "6282923587291429 / 17592186044416 :: rat"
  let ?q = "7881299347898367 / 1125899906842624 :: rat"
  have b: "bpm (getTimingEvents tempoGroup ! 2) = 84" by code_simp
  have pos: "0 < bpm (getTimingEvents tempoGroup ! 2)" unfolding b by simp
  have "judgeInterval 84 = Some ?interval" by code_simp
  then have iv: "judgeInterval (bpm (getTimingEvents tempoGroup ! 2)) = Some ?interval"
    by (simp only: b)
  have shown: "Arc_calculateJudgeTimings tempoGroup (arcAt 5500 8000 True) =
                 Some (Inr [5857, 6214, 6571, 6928, 7285])"
  proof -
    let ?a = "arcAt 5500 8000 True"
    have nv: "\<not> isVoid ?a" by (simp add: arcAt_def)
    have lt: "Arc.time ?a < Arc.endTime ?a" by (simp add: arcAt_def)
    have act: "activeAt tempoGroup (Arc.time ?a) 2" by code_simp
    have tot: "fdiv (of_int (Arc.endTime ?a - Arc.time ?a)) ?interval = Some ?q"
      by code_simp
    have val: "(let first = (if renderHead ?a then 1 else 0); total' = \<lfloor>?q\<rfloor>
                in if first \<ge> total' then [midpointInstant (Arc.time ?a) (Arc.endTime ?a)]
                   else judgeInstants (Arc.time ?a) (Arc.endTime ?a) ?interval first total') =
               [5857, 6214, 6571, 6928, 7285]"
      by code_simp
    from arc_judgeTimings [OF nv lt act pos iv tot, THEN conjunct1] show ?thesis
      unfolding val .
  qed
  have hidden: "Arc_calculateJudgeTimings tempoGroup (arcAt 5500 8000 False) =
                  Some (Inr [5500, 5857, 6214, 6571, 6928, 7285])"
  proof -
    let ?a = "arcAt 5500 8000 False"
    have nv: "\<not> isVoid ?a" by (simp add: arcAt_def)
    have lt: "Arc.time ?a < Arc.endTime ?a" by (simp add: arcAt_def)
    have act: "activeAt tempoGroup (Arc.time ?a) 2" by code_simp
    have tot: "fdiv (of_int (Arc.endTime ?a - Arc.time ?a)) ?interval = Some ?q"
      by code_simp
    have val: "(let first = (if renderHead ?a then 1 else 0); total' = \<lfloor>?q\<rfloor>
                in if first \<ge> total' then [midpointInstant (Arc.time ?a) (Arc.endTime ?a)]
                   else judgeInstants (Arc.time ?a) (Arc.endTime ?a) ?interval first total') =
               [5500, 5857, 6214, 6571, 6928, 7285]"
      by code_simp
    from arc_judgeTimings [OF nv lt act pos iv tot, THEN conjunct1] show ?thesis
      unfolding val .
  qed
  from shown hidden show ?thesis by (rule conjI)
qed

section \<open>Arc groups\<close>

text \<open>
  C10. The claim: after \<open>calculateArcRelationship\<close> every arc's \<open>arcGroup\<close> contains
  the arc itself. With the chain \<open>chainX\<close>, \<open>chainY\<close>, \<open>chainZ\<close> loaded in the order
  \<open>[chainY, chainZ, chainX]\<close> (indices 0, 1, 2), the pair (\<open>chainY\<close>, \<open>chainZ\<close>) is
  met first and creates the array \<open>[chainY, chainZ]\<close>. The pair (\<open>chainX\<close>, \<open>chainY\<close>)
  is met later with \<open>a.arcGroup == null\<close> and \<open>b.arcGroup != null\<close>: \<open>chainX\<close> is
  pointed at that array, and only \<open>b\<close> is checked for membership, so \<open>chainX\<close> is never
  pushed. The group of arc 2 is \<open>[0, 1]\<close>.
\<close>

theorem chain_tail_first_loses_head:
  "groupsAfter [timingGroupOf [(0, 120)]] [chainY, chainZ, chainX] =
     Some (Inr [Some [0, 1], Some [0, 1], Some [0, 1]])"
  by code_simp

section \<open>The scenario chart\<close>

lemma log10_120: "\<lceil>log 10 (real_of_rat \<bar>120\<bar>) + 1 / 100000\<rceil> = 3"
proof -
  have e2: "log 10 (100 :: real) = 2"
    using log_pow_cancel [of "10 :: real" 2] by simp
  have e5: "log 10 (100000 :: real) = 5"
    using log_pow_cancel [of "10 :: real" 5] by simp
  have sq: "log 10 (14400 :: real) = 2 * log 10 120"
    using log_nat_power [of "120 :: real" 10 2] by simp
  have "log 10 (100 :: real) < log 10 120"
    by (subst log_less_cancel_iff) simp_all
  then have lo: "2 < log 10 (120 :: real)"
    unfolding e2 .
  have "log 10 (14400 :: real) < log 10 100000"
    by (subst log_less_cancel_iff) simp_all
  then have hi: "log 10 (120 :: real) < 5 / 2"
    unfolding e5 sq by simp
  define l where "l = log 10 (120 :: real)"
  have "2 < l" and "l < 5 / 2"
    using lo hi by (simp_all only: l_def)
  then have "\<lceil>l + 1 / 100000\<rceil> = 3"
    by (simp add: ceiling_eq_iff)
  moreover have "real_of_rat \<bar>120\<bar> = 120" by simp
  ultimately show ?thesis by (simp only: l_def)
qed

lemma log10_4: "\<lceil>log 10 (real_of_rat \<bar>4\<bar>) + 1 / 100000\<rceil> = 1"
proof -
  have e0: "log 10 (1 :: real) = 0"
    by simp
  have e2: "log 10 (100 :: real) = 2"
    using log_pow_cancel [of "10 :: real" 2] by simp
  have cu: "log 10 (64 :: real) = 3 * log 10 4"
    using log_nat_power [of "4 :: real" 10 3] by simp
  have "log 10 (1 :: real) < log 10 4"
    by (subst log_less_cancel_iff) simp_all
  then have lo: "0 < log 10 (4 :: real)"
    unfolding e0 .
  have "log 10 (64 :: real) < log 10 100"
    by (subst log_less_cancel_iff) simp_all
  then have hi: "log 10 (4 :: real) < 2 / 3"
    unfolding e2 cu by simp
  define l where "l = log 10 (4 :: real)"
  have "0 < l" and "l < 2 / 3"
    using lo hi by (simp_all only: l_def)
  then have "\<lceil>l + 1 / 100000\<rceil> = 1"
    by (simp add: ceiling_eq_iff)
  moreover have "real_of_rat \<bar>4\<bar> = 4" by simp
  ultimately show ?thesis by (simp only: l_def)
qed

lemma natToString_120: "natToString 120 = ''120''"
  by (simp add: natToString.simps digitChar_def)

lemma natToString_12000: "natToString 12000 = ''12000''"
  by (simp add: natToString.simps digitChar_def)

lemma natToString_4: "natToString 4 = ''4''"
  by (simp add: natToString.simps digitChar_def)

lemma natToString_400: "natToString 400 = ''400''"
  by (simp add: natToString.simps digitChar_def)

lemma natToString_1000: "natToString 1000 = ''1000''"
  by (simp add: natToString.simps digitChar_def)

lemma decimalExponent_120: "decimalExponent 120 = 2"
  by (simp add: decimalExponent_def natToString_120)

lemma decimalExponent_4: "decimalExponent 4 = 0"
  by (simp add: decimalExponent_def natToString_4)

lemma floor_half: "\<lfloor>of_int n + (1 / 2 :: rat)\<rfloor> = n"
  by (simp add: floor_eq_iff)

lemma toPrecision_120: "toPrecision 120 5 = Inr ''120.00''"
  using floor_half [of 12000]
  by (simp add: toPrecision_def Let_def decimalExponent_120 scale10_def signText_def
      natToString_12000)

lemma toPrecision_4: "toPrecision 4 3 = Inr ''4.00''"
  using floor_half [of 400]
  by (simp add: toPrecision_def Let_def decimalExponent_4 scale10_def signText_def
      natToString_400)

lemma intToString_0: "intToString 0 = ''0''"
  by (simp add: intToString_def natToString.simps digitChar_def)

lemma intToString_1: "intToString 1 = ''1''"
  by (simp add: intToString_def natToString.simps digitChar_def)

lemma intToString_1000: "intToString 1000 = ''1000''"
  by (simp add: intToString_def natToString.simps digitChar_def)

lemma numTo2f_120: "numTo2f 120 = Inr ''120.00''"
  unfolding numTo2f_def log10_120 by (simp add: toPrecision_120)

lemma numTo2f_4: "numTo2f 4 = Inr ''4.00''"
  unfolding numTo2f_def log10_4 by (simp add: toPrecision_4)

lemma parse_scenario: "Chart_fromRaw scenarioText = Inr scenarioChart"
  by code_simp

lemma export_scenario: "Chart_export scenarioChart False = Inr exportedText"
  by (simp add: Chart_export_def scenarioChart_def TimingGroup_export_def TimingEvent_export_def
      TapNote_export_def numTo2f_120 numTo2f_4 intToString_0 intToString_1 intToString_1000
      exportedText_def)

lemma parse_exported: "Chart_fromRaw exportedText = Inr scenarioChart"
  by code_simp

text \<open>
  C8. The chart text \<open>AudioOffset:0\<close>, \<open>-\<close>, \<open>timing(0,120,4);\<close>,
  \<open>(1000,1);\<close> (each line ended by a line feed) parses to a chart with offset 0 and one
  primary timing group whose events are a timing event with time 0, tempo 120 and 4 beats
  per line, and a tap with time 1000 on lane 1. \<open>export(false)\<close> of that chart is the text
  with \<open>timing(0,120.00,4.00);\<close> in place of the timing line, and parsing that text gives
  the same chart again.
\<close>

theorem scenario_round_trip:
  "Chart_fromRaw scenarioText = Inr scenarioChart \<and>
   Chart_export scenarioChart False = Inr exportedText \<and>
   Chart_fromRaw exportedText = Inr scenarioChart"
  using parse_scenario export_scenario parse_exported by simp

section \<open>Lines that are no event\<close>

text \<open>
  C9, as stated, fails: a line without \<open>(\<close> is dropped without an error. The text
  \<open>AudioOffset:0\<close>, \<open>-\<close>, \<open>garbage\<close>, \<open>(1000,1);\<close> parses to a chart whose only
  event is the tap.
\<close>

theorem garbage_line_skipped:
  "Chart_fromRaw skippingText =
     Inr \<lparr>timingGroups =
            [\<lparr>isPrimary = True, events = [ETap \<lparr>TapNote.time = 1000, lane = 1\<rparr>]\<rparr>],
          offset = 0\<rparr>"
  by code_simp

lemma indexOf_None: "indexOf s c = None \<longleftrightarrow> c \<notin> set s"
  by (induction s) auto

lemma indexOf_first: "c \<notin> set kind \<Longrightarrow> indexOf (kind @ c # rest) c = Some (length kind)"
  by (induction kind) auto

lemma substring_prefix: "substring (kind @ rest) 0 (int (length kind)) = kind"
  by (auto simp: substring_def Let_def min_def max_def)

lemma map_sum_not_null: "map_sum id (\<lambda>e. Some (f e)) r \<noteq> Inr None"
  by (cases r) auto

lemma indexOf_Some: "indexOf s c = Some k \<Longrightarrow> c \<in> set s"
  using indexOf_None [of s c] by auto

lemma fromRaw_null: "ArcaeaEvent_fromRaw l tg = Inr None \<longleftrightarrow> CHR ''('' \<notin> set l"
proof (cases "indexOf l CHR ''(''")
  case None
  then show ?thesis
    by (simp add: ArcaeaEvent_fromRaw_def indexOf_None [symmetric])
next
  case (Some k)
  then have "CHR ''('' \<in> set l" by (rule indexOf_Some)
  moreover have "ArcaeaEvent_fromRaw l tg \<noteq> Inr None"
    by (simp add: ArcaeaEvent_fromRaw_def Some Let_def map_sum_not_null)
  ultimately show ?thesis by simp
qed

lemma fromRaw_unknown:
  assumes "CHR ''('' \<notin> set kind"
    and "kind \<notin> {[], ''hold'', ''arc'', ''timing'', ''camera''}"
  shows "ArcaeaEvent_fromRaw (kind @ CHR ''('' # rest) tg =
           Inl (AffFormatError (''Unknown event type: '' @ kind @ ''.''))"
  using assms
  by (simp add: ArcaeaEvent_fromRaw_def Let_def indexOf_first substring_prefix)

lemma readLine_body:
  assumes "2 \<le> i"
    and "\<not> startsWith line ''timinggroup(''"
    and "\<not> startsWith line ''};''"
  shows "readLine i line (chart, target) =
           (case ArcaeaEvent_fromRaw (trim line) target of
              Inl e \<Rightarrow> Inl e
            | Inr None \<Rightarrow> Inr (chart, target)
            | Inr (Some event) \<Rightarrow> Inr (pushEvent event (chart, target)))"
  using assms by (simp add: readLine_def)

lemma allSome_Some: "None \<notin> set xs \<Longrightarrow> allSome xs = Some (map the xs)"
proof (induction xs)
  case Nil
  then show ?case by simp
next
  case (Cons v xs)
  then show ?case by (cases v) auto
qed

lemma fromRaw_wellFormed:
  assumes k: "CHR ''('' \<notin> set kind" and w: "wellFormed kind (kind @ CHR ''('' # rest)"
  shows "\<exists>event. ArcaeaEvent_fromRaw (kind @ CHR ''('' # rest) tg = Inr (Some event)"
proof -
  let ?l = "kind @ CHR ''('' # rest"
  from w obtain caps where m: "match ?l (patternOf kind) = Some caps" and n: "numbersIn kind caps"
    and five: "kind \<in> {[], ''hold'', ''arc'', ''timing'', ''camera''}"
    by (auto simp: wellFormed_def split: option.splits)
  have disp: "ArcaeaEvent_fromRaw ?l tg =
          (if kind = [] then map_sum id (\<lambda>e. Some (ETap e)) (TapNote_fromRaw ?l)
           else if kind = ''hold'' then map_sum id (\<lambda>e. Some (EHold e)) (HoldNote_fromRaw ?l)
           else if kind = ''arc'' then map_sum id (\<lambda>e. Some (EArc e)) (Arc_fromRaw ?l tg)
           else if kind = ''timing'' then
             map_sum id (\<lambda>e. Some (ETiming e)) (TimingEvent_fromRaw ?l)
           else if kind = ''camera'' then
             map_sum id (\<lambda>e. Some (ECamera e)) (CameraEvent_fromRaw ?l)
           else Inl (AffFormatError (''Unknown event type: '' @ kind @ ''.'')))"
    using k by (simp add: ArcaeaEvent_fromRaw_def Let_def indexOf_first substring_prefix)
  from five consider "kind = []" | "kind = ''hold''" | "kind = ''arc''" | "kind = ''timing''"
    | "kind = ''camera''" by auto
  then show ?thesis
  proof cases
    case 1
    with m n have "\<exists>e. TapNote_fromRaw ?l = Inr e"
      by (simp add: TapNote_fromRaw_def patternOf_def numbersIn_def allSome_Some)
    with 1 show ?thesis unfolding disp by auto
  next
    case 2
    with m n have "\<exists>e. HoldNote_fromRaw ?l = Inr e"
      by (simp add: HoldNote_fromRaw_def patternOf_def numbersIn_def allSome_Some)
    with 2 show ?thesis unfolding disp by auto
  next
    case 3
    with m n have "\<exists>e. Arc_fromRaw ?l tg = Inr e"
      by (simp add: Arc_fromRaw_def patternOf_def numbersIn_def allSome_Some startsWith_def)
    with 3 show ?thesis unfolding disp by auto
  next
    case 4
    with m n have "\<exists>e. TimingEvent_fromRaw ?l = Inr e"
      by (auto simp: TimingEvent_fromRaw_def patternOf_def numbersIn_def allSome_Some)
    with 4 show ?thesis unfolding disp by auto
  next
    case 5
    with m n have "\<exists>e. CameraEvent_fromRaw ?l = Inr e"
      by (simp add: CameraEvent_fromRaw_def patternOf_def numbersIn_def allSome_Some)
    with 5 show ?thesis unfolding disp by auto
  qed
qed

lemma readLines_append:
  "readLines i (xs @ ys) st =
     (case readLines i xs st of
        Inl e \<Rightarrow> Inl e
      | Inr st' \<Rightarrow> readLines (i + length xs) ys st')"
proof (induction xs arbitrary: i st)
  case Nil
  then show ?case by simp
next
  case (Cons l xs)
  then show ?case by (cases "readLine i l st") (simp_all split: sum.split)
qed

lemma Chart_fromRaw_lines:
  "Chart_fromRaw raw = map_sum id fst (readLines 0 (splitOn CHR ''\<newline>'' raw) startState)"
  by (simp add: Chart_fromRaw_def startState_def)

lemma Chart_fromRaw_at:
  assumes "splitOn CHR ''\<newline>'' raw = pre @ line # post"
    and "readLines 0 pre startState = Inr st"
  shows "Chart_fromRaw raw =
           map_sum id fst
             (case readLine (length pre) line st of
                Inl e \<Rightarrow> Inl e
              | Inr st' \<Rightarrow> readLines (length pre + 1) post st')"
  by (simp add: Chart_fromRaw_lines assms readLines_append)

text \<open>
  C9, amended. Take a chart text and a line of it, of index 2 or more, that starts neither
  with \<open>timinggroup(\<close> nor with \<open>};\<close>, and let the parse reach it in state \<open>st\<close>.
  When the trimmed line has no \<open>(\<close>, the line is skipped: the parse goes on with the
  lines after it in the same state. When the text before the first \<open>(\<close> is none of the
  empty text, \<open>hold\<close>, \<open>arc\<close>, \<open>timing\<close>, \<open>camera\<close>, the whole parse ends with
  \<open>AffFormatError("Unknown event type: <prefix>.")\<close>, whatever the later lines are. When
  it is one of the five and the line is well formed for it, one event is pushed onto the
  current group and the parse goes on with the lines after it.
\<close>

theorem body_line_outcome:
  assumes lines: "splitOn CHR ''\<newline>'' raw = pre @ line # post"
    and body: "2 \<le> length pre"
    and opener: "\<not> startsWith line ''timinggroup(''"
    and closer: "\<not> startsWith line ''};''"
    and reached: "readLines 0 pre startState = Inr st"
  shows "(CHR ''('' \<notin> set (trim line) \<longrightarrow>
            Chart_fromRaw raw = map_sum id fst (readLines (length pre + 1) post st)) \<and>
         (\<forall>kind rest.
            trim line = kind @ CHR ''('' # rest \<and> CHR ''('' \<notin> set kind \<longrightarrow>
              (kind \<notin> {[], ''hold'', ''arc'', ''timing'', ''camera''} \<longrightarrow>
                 Chart_fromRaw raw = Inl (AffFormatError (''Unknown event type: '' @ kind @ ''.''))) \<and>
              (wellFormed kind (trim line) \<longrightarrow>
                 (\<exists>event. Chart_fromRaw raw =
                    map_sum id fst (readLines (length pre + 1) post (pushEvent event st)))))"
proof -
  obtain chart target where st: "st = (chart, target)" by (cases st)
  note rl = readLine_body [OF body opener closer, of chart target]
  note at = Chart_fromRaw_at [OF lines reached]
  have 1: "CHR ''('' \<notin> set (trim line) \<longrightarrow>
             Chart_fromRaw raw = map_sum id fst (readLines (length pre + 1) post st)"
  proof
    assume "CHR ''('' \<notin> set (trim line)"
    then have "ArcaeaEvent_fromRaw (trim line) target = Inr None"
      by (simp add: fromRaw_null)
    then have "readLine (length pre) line st = Inr st"
      unfolding st rl by simp
    then show "Chart_fromRaw raw = map_sum id fst (readLines (length pre + 1) post st)"
      unfolding at by simp
  qed
  have 2: "\<forall>kind rest.
            trim line = kind @ CHR ''('' # rest \<and> CHR ''('' \<notin> set kind \<longrightarrow>
              (kind \<notin> {[], ''hold'', ''arc'', ''timing'', ''camera''} \<longrightarrow>
                 Chart_fromRaw raw = Inl (AffFormatError (''Unknown event type: '' @ kind @ ''.''))) \<and>
              (wellFormed kind (trim line) \<longrightarrow>
                 (\<exists>event. Chart_fromRaw raw =
                    map_sum id fst (readLines (length pre + 1) post (pushEvent event st))))"
  proof (intro allI impI conjI)
    fix kind rest
    assume h: "trim line = kind @ CHR ''('' # rest \<and> CHR ''('' \<notin> set kind"
      and u: "kind \<notin> {[], ''hold'', ''arc'', ''timing'', ''camera''}"
    then have "ArcaeaEvent_fromRaw (trim line) target =
                 Inl (AffFormatError (''Unknown event type: '' @ kind @ ''.''))"
      using fromRaw_unknown [of kind rest target] by simp
    then have "readLine (length pre) line st =
                 Inl (AffFormatError (''Unknown event type: '' @ kind @ ''.''))"
      unfolding st rl by simp
    then show "Chart_fromRaw raw = Inl (AffFormatError (''Unknown event type: '' @ kind @ ''.''))"
      unfolding at by simp
  next
    fix kind rest
    assume h: "trim line = kind @ CHR ''('' # rest \<and> CHR ''('' \<notin> set kind"
      and w: "wellFormed kind (trim line)"
    then obtain event where "ArcaeaEvent_fromRaw (trim line) target = Inr (Some event)"
      using fromRaw_wellFormed [of kind rest target] by auto
    then have "readLine (length pre) line st = Inr (pushEvent event st)"
      unfolding st rl by simp
    then have "Chart_fromRaw raw =
                 map_sum id fst (readLines (length pre + 1) post (pushEvent event st))"
      unfolding at by simp
    then show "\<exists>event. Chart_fromRaw raw =
                 map_sum id fst (readLines (length pre + 1) post (pushEvent event st))" ..
  qed
  show ?thesis by (rule conjI [OF 1 2])
qed

theorem body_line_outcome_witness:
  "Chart_fromRaw skippingText =
     map_sum id fst (readLines 3 [''(1000,1);'', []] startState) \<and>
   Chart_fromRaw unknownText = Inl (AffFormatError ''Unknown event type: foo.'') \<and>
   (\<exists>event. Chart_fromRaw holdText =
      map_sum id fst (readLines 3 [''(1000,1);'', []] (pushEvent event startState)))"
proof -
  let ?pre = "[''AudioOffset:0'', ''-'']" and ?post = "[''(1000,1);'', []]"
  have reached: "readLines 0 ?pre startState = Inr startState" by code_simp
  have body: "2 \<le> length ?pre" by simp
  have s1: "splitOn CHR ''\<newline>'' skippingText = ?pre @ ''garbage'' # ?post" by code_simp
  have o1: "\<not> startsWith ''garbage'' ''timinggroup(''" by (simp add: startsWith_def)
  have c1: "\<not> startsWith ''garbage'' ''};''" by (simp add: startsWith_def)
  have n1: "CHR ''('' \<notin> set (trim ''garbage'')" by code_simp
  have s2: "splitOn CHR ''\<newline>'' unknownText = ?pre @ ''foo(1);'' # ?post" by code_simp
  have o2: "\<not> startsWith ''foo(1);'' ''timinggroup(''" by (simp add: startsWith_def)
  have c2: "\<not> startsWith ''foo(1);'' ''};''" by (simp add: startsWith_def)
  have t2: "trim ''foo(1);'' = ''foo'' @ CHR ''('' # ''1);''" by code_simp
  have k2: "CHR ''('' \<notin> set ''foo''" by simp
  have u2: "''foo'' \<notin> {[], ''hold'', ''arc'', ''timing'', ''camera''}" by simp
  have s3: "splitOn CHR ''\<newline>'' holdText = ?pre @ ''hold(500,900,2);'' # ?post" by code_simp
  have o3: "\<not> startsWith ''hold(500,900,2);'' ''timinggroup(''" by (simp add: startsWith_def)
  have c3: "\<not> startsWith ''hold(500,900,2);'' ''};''" by (simp add: startsWith_def)
  have t3: "trim ''hold(500,900,2);'' = ''hold'' @ CHR ''('' # ''500,900,2);''" by code_simp
  have k3: "CHR ''('' \<notin> set ''hold''" by simp
  have w3: "wellFormed ''hold'' (trim ''hold(500,900,2);'')" by code_simp
  have l3: "length ?pre + 1 = 3" by simp
  note r1 = body_line_outcome [OF s1 body o1 c1 reached, THEN conjunct1, THEN mp, OF n1]
  note r2 = body_line_outcome [OF s2 body o2 c2 reached, THEN conjunct2, THEN spec, THEN spec,
      THEN mp, OF conjI [OF t2 k2], THEN conjunct1, THEN mp, OF u2]
  note r3 = body_line_outcome [OF s3 body o3 c3 reached, THEN conjunct2, THEN spec, THEN spec,
      THEN mp, OF conjI [OF t3 k3], THEN conjunct2, THEN mp, OF w3]
  from r1 have a: "Chart_fromRaw skippingText = map_sum id fst (readLines 3 ?post startState)"
    by (simp only: l3)
  from r2 have b: "Chart_fromRaw unknownText = Inl (AffFormatError ''Unknown event type: foo.'')"
    by simp
  from r3 have c: "\<exists>event. Chart_fromRaw holdText =
             map_sum id fst (readLines 3 ?post (pushEvent event startState))"
    by (simp only: l3)
  show ?thesis by (rule conjI [OF a conjI [OF b c]])
qed

end
